theory Spec2Isabelle
  imports Complex_Main
begin

section \<open>Host plugin contract: the codes both adapters use\<close>

text \<open>
  Both adapters return plain C \<open>int\<close> codes.  The host's codes (\<open>DEVICE_OK\<close>, ...) come
  from the host header MMDeviceConstants.h and the vendor's \<open>IS_SUCCESS\<close> from the camera
  SDK header uc480.h; neither header is among the source files, so the values the two
  adapters rely on are written down here.  Codes stay integers, as in the source, where a
  vendor code is returned through the same \<open>int\<close> as a host code.
\<close>

definition DEVICE_OK :: int where
  \<comment> \<open>Modelled from the spec: the host header MMDeviceConstants.h is missing; success is 0.\<close>
  "DEVICE_OK = 0"

definition DEVICE_ERR :: int where
  \<comment> \<open>Modelled from the spec: MMDeviceConstants.h is missing; the generic error is 1.\<close>
  "DEVICE_ERR = 1"

definition DEVICE_BUFFER_OVERFLOW :: int where
  \<comment> \<open>Modelled from the spec: MMDeviceConstants.h is missing; code 22 of the host list.\<close>
  "DEVICE_BUFFER_OVERFLOW = 22"

definition DEVICE_CAMERA_BUSY_ACQUIRING :: int where
  \<comment> \<open>Modelled from the spec: MMDeviceConstants.h is missing; code 30 of the host list.\<close>
  "DEVICE_CAMERA_BUSY_ACQUIRING = 30"

definition host_error_codes :: "int set" where
  \<comment> \<open>Modelled from the spec: the "fixed host error-code enumeration" is the list of
      DEVICE_ codes of MMDeviceConstants.h (missing), numbered upwards from DEVICE_OK = 0;
      the last one is at most 42.\<close>
  "host_error_codes = {0 .. 42}"

definition IS_SUCCESS :: int where
  \<comment> \<open>The vendor SDK's success code (uc480.h, not part of this repository).\<close>
  "IS_SUCCESS = 0"

definition IS_NO_SUCCESS :: int where
  \<comment> \<open>The vendor SDK's general failure code (uc480.h, not part of this repository).\<close>
  "IS_NO_SUCCESS = - 1"

text \<open>The kind of call a property handler receives (\<open>MM::ActionType\<close> of the host).\<close>

datatype ActionType =
  NoAction | BeforeGet | AfterSet | IsSequenceable | AfterLoadSequence | StartSequence | StopSequence


section \<open>IntegratedLaserEngine.cpp\<close>

subsection \<open>Module factory\<close>

text \<open>
  The three device names and descriptions are static members defined in SingleILE.cpp and
  DualILE.cpp, and \<open>ERR_DEVICE_INDEXINVALID\<close> is defined in IntegratedLaserEngine.h; these
  files are missing, so the values are parameters of the model.
\<close>

record ile_consts =
  g_DeviceName :: string
  g_DeviceDescription :: string
  g_DualDeviceName :: string
  g_DualDeviceDescription :: string
  g_Dual700DeviceName :: string
  g_Dual700DeviceDescription :: string
  ERR_DEVICE_INDEXINVALID :: int

datatype DeviceType = ShutterDevice

text \<open>\<open>InitializeModuleData\<close>: the calls to \<open>RegisterDevice\<close>, in order.\<close>

definition InitializeModuleData :: "ile_consts \<Rightarrow> (string \<times> DeviceType \<times> string) list" where
  "InitializeModuleData c =
     [ (g_DeviceName c, ShutterDevice, g_DeviceDescription c),
       (g_DualDeviceName c, ShutterDevice, g_DualDeviceDescription c),
       (g_Dual700DeviceName c, ShutterDevice, g_Dual700DeviceDescription c) ]"

definition registered_names :: "ile_consts \<Rightarrow> string set" where
  "registered_names c = set (map fst (InitializeModuleData c))"

text \<open>
  The object \<open>CreateDevice\<close> constructs: \<open>new CSingleILE()\<close>, or \<open>new CDualILE(b)\<close> with
  the constructor's flag (\<open>true\<close> for the ILE 700).  The null pointer is \<open>None\<close>, for the
  argument as for the result.  \<open>strcmp(a, b) == 0\<close> is equality of the two C strings.
\<close>

datatype ile_object = CSingleILE | CDualILE bool

definition CreateDevice :: "ile_consts \<Rightarrow> string option \<Rightarrow> ile_object option" where
  "CreateDevice c DeviceName =
     (case DeviceName of
        None \<Rightarrow> None
      | Some name \<Rightarrow>
          if name = g_DeviceName c then Some CSingleILE
          else if name = g_DualDeviceName c then Some (CDualILE False)
          else if name = g_Dual700DeviceName c then Some (CDualILE True)
          else None)"

subsection \<open>The controller\<close>

text \<open>
  The fields of \<open>CIntegratedLaserEngine\<close> that the handlers below touch (a constant's
  name cannot end in an underscore, so \<open>Lasers_\<close> is written \<open>Lasers\<close>, and likewise for
  every member below).  \<open>Lasers\<close> is a
  pointer to a \<open>CLasers\<close> object (Lasers.cpp, missing): \<open>None\<close> is the null pointer, and the
  object's own state is the type parameter.
\<close>

record 'l CIntegratedLaserEngine =
  Initialized :: bool
  DevicesNames :: "string list"
  Lasers :: "'l option"

text \<open>
  \<open>DeviceIndex >= DevicesNames.size()\<close> compares a \<open>long\<close> with a \<open>size_t\<close>: the long is
  converted to the unsigned 64-bit type first, so a negative index becomes a huge one.
  \<open>DevicesNames[DeviceIndex]\<close> converts the index the same way.
\<close>

definition size_t_of_long :: "int \<Rightarrow> nat" where
  "size_t_of_long i = nat (i mod 2 ^ 64)"

text \<open>
  \<open>std::vector::operator[]\<close> does not check its index: reading or writing outside the
  vector is undefined behaviour, which the model makes a result of its own (\<open>None\<close>).
\<close>

definition vector_read :: "'a list \<Rightarrow> nat \<Rightarrow> 'a option" where
  "vector_read xs i = (if i < length xs then Some (xs ! i) else None)"

definition vector_write :: "'a list \<Rightarrow> nat \<Rightarrow> 'a \<Rightarrow> 'a list option" where
  "vector_write xs i v = (if i < length xs then Some (xs[i := v]) else None)"

text \<open>
  \<open>OnDeviceChange\<close>.  The property is its string value: \<open>Prop->Set(v)\<close> replaces it and
  \<open>Prop->Get(x)\<close> copies it into \<open>x\<close>.  The result is the return code, the property and the
  controller; \<open>None\<close> is an access outside \<open>DevicesNames\<close>.
\<close>

definition OnDeviceChange ::
  "ile_consts \<Rightarrow> string \<Rightarrow> ActionType \<Rightarrow> int \<Rightarrow> 'l CIntegratedLaserEngine
     \<Rightarrow> (int \<times> string \<times> 'l CIntegratedLaserEngine) option" where
  "OnDeviceChange c Prop Act DeviceIndex s =
     (if length (DevicesNames s) \<le> size_t_of_long DeviceIndex
      then Some (ERR_DEVICE_INDEXINVALID c, Prop, s)
      else if Act = BeforeGet then
        (case vector_read (DevicesNames s) (size_t_of_long DeviceIndex) of
           None \<Rightarrow> None
         | Some name \<Rightarrow> Some (DEVICE_OK, name, s))
      else if Act = AfterSet then
        (case vector_write (DevicesNames s) (size_t_of_long DeviceIndex) Prop of
           None \<Rightarrow> None
         | Some names \<Rightarrow> Some (DEVICE_OK, Prop, s\<lparr>DevicesNames := names\<rparr>))
      else Some (DEVICE_OK, Prop, s))"

text \<open>
  The shutter calls.  \<open>CLasers::SetOpen\<close> and \<open>CLasers::GetOpen\<close> are in Lasers.cpp
  (missing) and are parameters: \<open>lasers_SetOpen Open l\<close> gives the code and the new laser
  state, \<open>lasers_GetOpen Open l\<close> gives what the call leaves in its reference argument
  (whose value before the call is \<open>Open\<close>) and the new laser state.  \<open>GetOpen\<close> returns the
  code, the value left in \<open>Open\<close>, and the controller.
\<close>

definition SetOpen ::
  "(bool \<Rightarrow> 'l \<Rightarrow> int \<times> 'l) \<Rightarrow> bool \<Rightarrow> 'l CIntegratedLaserEngine
     \<Rightarrow> int \<times> 'l CIntegratedLaserEngine" where
  "SetOpen lasers_SetOpen Open s =
     (case Lasers s of
        Some l \<Rightarrow> (let (ret, l') = lasers_SetOpen Open l in (ret, s\<lparr>Lasers := Some l'\<rparr>))
      | None \<Rightarrow> (DEVICE_OK, s))"

definition GetOpen ::
  "(bool \<Rightarrow> 'l \<Rightarrow> bool \<times> 'l) \<Rightarrow> 'l CIntegratedLaserEngine
     \<Rightarrow> int \<times> bool \<times> 'l CIntegratedLaserEngine" where
  "GetOpen lasers_GetOpen s =
     (let Open = False in
      case Lasers s of
        Some l \<Rightarrow> (let (Open', l') = lasers_GetOpen Open l in (DEVICE_OK, Open', s\<lparr>Lasers := Some l'\<rparr>))
      | None \<Rightarrow> (DEVICE_OK, Open, s))"

text \<open>Concrete values for the examples: three distinct names, and a two-slot controller
  without lasers.\<close>

definition ile_example_consts :: ile_consts where
  "ile_example_consts =
     \<lparr> g_DeviceName = ''ILE'', g_DeviceDescription = ''single'',
       g_DualDeviceName = ''Dual ILE'', g_DualDeviceDescription = ''dual'',
       g_Dual700DeviceName = ''Dual ILE 700'', g_Dual700DeviceDescription = ''dual 700'',
       ERR_DEVICE_INDEXINVALID = 10009 \<rparr>"

definition ile_no_lasers :: "unit CIntegratedLaserEngine" where
  "ile_no_lasers =
     \<lparr> Initialized = True, DevicesNames = [''Undefined'', ''Undefined''], Lasers = None \<rparr>"


section \<open>ThorlabsUSBCamera.cpp\<close>

subsection \<open>What the adapter calls\<close>

text \<open>
  The adapter's own error codes and the thread's two defaults are defined in
  ThorlabsUSBCamera.h, which is missing, and the largest value of a \<open>long\<close> is the
  compiler's (\<open>LONG_MAX\<close> of \<open><climits>\<close>: \<open>2147483647\<close> where a \<open>long\<close> has 32 bits, as with
  the Windows compilers, \<open>9223372036854775807\<close> where it has 64): they are parameters of
  the model.
\<close>

record thorcam_consts =
  ERR_THORCAM_LIVE_TIMEOUT :: int
  ERR_THORCAM_LIVE_UNKNOWN_EVENT :: int
  ERR_THORCAM_UNKNOWN_PIXEL_TYPE :: int
  default_numImages :: int
  default_intervalMS :: real
  LONG_MAX :: nat

definition g_PixelType_8bit :: string where
  "g_PixelType_8bit = ''8bit''"

definition g_PixelType_16bit :: string where
  "g_PixelType_16bit = ''16bit''"

text \<open>
  The vendor SDK and the host are outside the repository.  Every call to them is written
  to a trace, in program order, and what a call returns is an input of the model: a
  return code for each call, and the values the SDK stores through its pointer arguments.
\<close>

datatype color_mode = IS_CM_SENSOR_RAW8 | IS_CM_SENSOR_RAW16

datatype pixelclock_cmd = IS_PIXELCLOCK_CMD_GET_RANGE | IS_PIXELCLOCK_CMD_GET

datatype sdk_call =
    is_InitCamera
  | is_GetCameraInfo
  | is_GetSensorInfo
  | is_SetDisplayMode
  | is_SetColorMode color_mode
  | is_PixelClock pixelclock_cmd
  | is_FreeImageMem nat int
  | is_AllocImageMem nat nat nat
  | is_SetImageMem nat int
  | is_FreezeVideo
  | is_InitEvent
  | is_EnableEvent
  | is_CaptureVideo
  | is_DisableEvent
  | is_ExitEvent

datatype host_call =
    CreateProperty string
  | SetAllowedValues string
  | SetPropertyLimits string
  | UpdateStatus
  | OnPropertyChanged string int
  | LogMessage string
  | PrepareForAcq
  | Core_InsertImage nat nat nat bool
  | ClearImageBuffer
  | AcqFinished

datatype wait_status = WAIT_OBJECT_0 | WAIT_TIMEOUT | WAIT_other nat

datatype event =
    Sdk sdk_call int
  | Host host_call int
  | Lock_imgPixelsLock
  | Unlock_imgPixelsLock
  | Memcpy_cameraBuf nat
  | CreateEvent
  | WaitForSingleObject nat nat
  | CloseHandle nat
  | Thread_activate

record env =
  sdk_rc :: "sdk_call \<Rightarrow> int"
  host_rc :: "host_call \<Rightarrow> int"
  new_camHandle :: nat
  new_nMaxWidth :: nat
  new_nMaxHeight :: nat
  new_cameraBuf :: nat
  new_cameraBufId :: int
  new_hEvent :: nat
  wait_result :: wait_status
  time_now :: int
  time_after :: int
  Stop_requested :: bool

subsection \<open>The objects\<close>

text \<open>
  \<open>ImgBuffer\<close> is a class of the host's device library (ImgBuffer.cpp, missing).  The
  adapter uses its three dimensions and its two \<open>Resize\<close> overloads.
\<close>

record ImgBuffer =
  width :: nat
  height :: nat
  pixDepth :: nat

definition ImgBuffer_new :: ImgBuffer where
  \<comment> \<open>Modelled from the spec: the default constructor of ImgBuffer (missing) makes an
      empty buffer.\<close>
  "ImgBuffer_new = \<lparr> width = 0, height = 0, pixDepth = 0 \<rparr>"

definition Resize3 :: "nat \<Rightarrow> nat \<Rightarrow> nat \<Rightarrow> ImgBuffer \<Rightarrow> ImgBuffer" where
  \<comment> \<open>Modelled from the spec: ImgBuffer::Resize(xSize, ySize, pixDepth) (missing) gives the
      buffer the size it is asked for ("buffer size matches ...").\<close>
  "Resize3 xSize ySize depth b = \<lparr> width = xSize, height = ySize, pixDepth = depth \<rparr>"

definition Resize2 :: "nat \<Rightarrow> nat \<Rightarrow> ImgBuffer \<Rightarrow> ImgBuffer" where
  \<comment> \<open>Modelled from the spec: ImgBuffer::Resize(xSize, ySize) (missing) changes width and
      height and keeps the byte depth.\<close>
  "Resize2 xSize ySize b = b\<lparr> width := xSize, height := ySize \<rparr>"

record MySequenceThread =
  intervalMs :: real
  numImages :: int
  seq_imageCounter :: int
  stop :: bool
  suspend :: bool
  startTime :: int
  actualDuration :: int
  lastFrameTime :: int

text \<open>
  The camera object, its members named as in the source without the trailing underscore.
  \<open>thd\<close> is the thread object the camera owns (\<open>thd_\<close>), \<open>img\<close> the
  adapter-owned image buffer, \<open>cameraBuf\<close> the driver-owned frame buffer (a pointer, 0 when
  null) and \<open>trace\<close> the calls made so far.  The thread's counter is \<open>seq_imageCounter\<close>
  (in the source both classes have a member \<open>imageCounter_\<close>).  Times are \<open>MM::MMTime\<close>
  values in microseconds; a \<open>double\<close> is a real number here, and no property below
  depends on its rounding.  Pixel contents, \<open>Exposure_\<close> and \<open>HardwareGain_\<close> are left out.
\<close>

record ThorlabsUSBCam =
  initialized :: bool
  bitDepth :: nat
  roiX :: nat
  roiY :: nat
  sequenceStartTime :: int
  readoutStartTime :: int
  binSize :: int
  nComponents :: nat
  cameraBuf :: nat
  cameraBufId :: int
  hEvent :: nat
  fps :: real
  camHandle :: nat
  nMaxWidth :: nat
  nMaxHeight :: nat
  img :: ImgBuffer
  imageCounter :: int
  stopOnOverFlow :: bool
  thd :: MySequenceThread
  trace :: "event list"

definition emit :: "event \<Rightarrow> ThorlabsUSBCam \<Rightarrow> ThorlabsUSBCam" where
  "emit ev s = s\<lparr> trace := trace s @ [ev] \<rparr>"

definition sdk :: "env \<Rightarrow> sdk_call \<Rightarrow> ThorlabsUSBCam \<Rightarrow> int \<times> ThorlabsUSBCam" where
  "sdk e call s = (sdk_rc e call, emit (Sdk call (sdk_rc e call)) s)"

definition host :: "env \<Rightarrow> host_call \<Rightarrow> ThorlabsUSBCam \<Rightarrow> int \<times> ThorlabsUSBCam" where
  "host e call s = (host_rc e call, emit (Host call (host_rc e call)) s)"

text \<open>The calls a method has made: what it appended to the trace.\<close>

definition new_events :: "ThorlabsUSBCam \<Rightarrow> ThorlabsUSBCam \<Rightarrow> event list" where
  "new_events s s' = drop (length (trace s)) (trace s')"

text \<open>
  The constructors.  \<open>MySequenceThread\<close> initialises every member.  \<open>ThorlabsUSBCam\<close>
  leaves \<open>camHandle_\<close>, \<open>sensorInfo\<close>, \<open>imageCounter_\<close> and \<open>stopOnOverFlow_\<close> uninitialised:
  they keep whatever the memory held, the argument \<open>mem\<close>.
\<close>

definition MySequenceThread_new :: "thorcam_consts \<Rightarrow> MySequenceThread" where
  "MySequenceThread_new c =
     \<lparr> intervalMs = default_intervalMS c, numImages = default_numImages c,
       seq_imageCounter = 0, stop = True, suspend = False,
       startTime = 0, actualDuration = 0, lastFrameTime = 0 \<rparr>"

definition ThorlabsUSBCam_new :: "thorcam_consts \<Rightarrow> int \<Rightarrow> ThorlabsUSBCam \<Rightarrow> ThorlabsUSBCam" where
  "ThorlabsUSBCam_new c now mem =
     mem\<lparr> initialized := False, bitDepth := 8, roiX := 0, roiY := 0,
          sequenceStartTime := 0, binSize := 1, nComponents := 1,
          cameraBuf := 0, cameraBufId := 0, hEvent := 0, fps := 0,
          img := ImgBuffer_new, readoutStartTime := now,
          thd := MySequenceThread_new c, trace := [] \<rparr>"

subsection \<open>The image buffer and the region of interest\<close>

text \<open>
  \<open>sensorInfo.nMaxWidth / binSize_\<close> divides an unsigned number by a \<open>long\<close>.  The
  constructor sets \<open>binSize_\<close> to 1 and \<open>OnBinning\<close> only stores values from 1 to 9, and for
  a positive divisor the quotient of the source is the one below.
\<close>

definition div_binSize :: "nat \<Rightarrow> int \<Rightarrow> nat" where
  "div_binSize n b = n div nat b"

text \<open>
  \<open>ResizeImageBuffer\<close>, in two parts: \<open>alloc_and_resize\<close> is the function from
  \<open>int byteDepth = ...\<close> to its end, which the first \<open>if\<close> block reaches unless it returns
  early.  A failed SDK call is taken to store nothing through its pointer arguments.
\<close>

definition alloc_and_resize :: "env \<Rightarrow> ThorlabsUSBCam \<Rightarrow> int \<times> ThorlabsUSBCam" where
  "alloc_and_resize e s =
     (let byteDepth = (if bitDepth s = 8 then 1 else 2);
          (ret, s1) = sdk e (is_AllocImageMem (div_binSize (nMaxWidth s) (binSize s))
                                              (div_binSize (nMaxHeight s) (binSize s))
                                              (byteDepth * 8)) s
      in if ret \<noteq> IS_SUCCESS then (ret, s1)
         else
           let s2 = s1\<lparr> cameraBuf := new_cameraBuf e, cameraBufId := new_cameraBufId e \<rparr>;
               (r, s3) = sdk e (is_SetImageMem (cameraBuf s2) (cameraBufId s2)) s2
           in (DEVICE_OK,
               s3\<lparr> img := Resize3 (div_binSize (nMaxWidth s3) (binSize s3))
                                  (div_binSize (nMaxHeight s3) (binSize s3))
                                  byteDepth (img s3) \<rparr>))"

definition ResizeImageBuffer :: "env \<Rightarrow> ThorlabsUSBCam \<Rightarrow> int \<times> ThorlabsUSBCam" where
  "ResizeImageBuffer e s =
     (if cameraBuf s \<noteq> 0 then
        (let (ret, s1) = sdk e (is_FreeImageMem (cameraBuf s) (cameraBufId s)) s
         in if ret \<noteq> IS_SUCCESS then (ret, s1)
            else alloc_and_resize e (s1\<lparr> cameraBuf := 0, cameraBufId := 0 \<rparr>))
      else alloc_and_resize e s)"

text \<open>
  \<open>SetROI\<close> and \<open>ClearROI\<close> call \<open>ResizeImageBuffer\<close> as a statement: its return code is
  dropped.  \<open>GetROI\<close> returns the code and the four values it writes to its arguments.
\<close>

definition SetROI ::
  "env \<Rightarrow> nat \<Rightarrow> nat \<Rightarrow> nat \<Rightarrow> nat \<Rightarrow> ThorlabsUSBCam \<Rightarrow> int \<times> ThorlabsUSBCam" where
  "SetROI e x y xSize ySize s =
     (if xSize = 0 \<and> ySize = 0 then
        (let s1 = snd (ResizeImageBuffer e s)
         in (DEVICE_OK, s1\<lparr> roiX := 0, roiY := 0 \<rparr>))
      else
        (DEVICE_OK, s\<lparr> img := Resize2 xSize ySize (img s), roiX := x, roiY := y \<rparr>))"

definition GetROI :: "ThorlabsUSBCam \<Rightarrow> int \<times> nat \<times> nat \<times> nat \<times> nat" where
  "GetROI s = (DEVICE_OK, roiX s, roiY s, width (img s), height (img s))"

definition ClearROI :: "env \<Rightarrow> ThorlabsUSBCam \<Rightarrow> int \<times> ThorlabsUSBCam" where
  "ClearROI e s =
     (let s1 = snd (ResizeImageBuffer e s)
      in (DEVICE_OK, s1\<lparr> roiX := 0, roiY := 0 \<rparr>))"

definition GetImageWidth :: "ThorlabsUSBCam \<Rightarrow> nat" where
  "GetImageWidth s = width (img s)"

definition GetImageHeight :: "ThorlabsUSBCam \<Rightarrow> nat" where
  "GetImageHeight s = height (img s)"

definition GetImageBytesPerPixel :: "ThorlabsUSBCam \<Rightarrow> nat" where
  "GetImageBytesPerPixel s = pixDepth (img s)"

text \<open>
  \<open>MMThreadGuard g(imgPixelsLock_)\<close> takes the lock where it is declared and releases it
  at the end of the enclosing block.  \<open>GetImageBuffer\<close> returns the pointer to the pixels
  of \<open>img\<close>; the model returns the buffer it points into.
\<close>

definition GetImageBuffer :: "ThorlabsUSBCam \<Rightarrow> ImgBuffer \<times> ThorlabsUSBCam" where
  "GetImageBuffer s =
     (let s1 = emit Lock_imgPixelsLock s;
          pB = img s1
      in (pB, emit Unlock_imgPixelsLock s1))"

text \<open>
  The two places that copy the driver's frame buffer into \<open>img\<close> do
  \<open>memcpy(img_.GetPixelsRW(), cameraBuf, img_.Width()*img_.Height()*img_.Depth())\<close>;
  the event records the number of bytes.  The three factors are \<open>unsigned\<close>, so the
  product is computed in 32 bits and wraps around (\<open>img_bytes\<close>).
\<close>

definition img_bytes :: "ThorlabsUSBCam \<Rightarrow> nat" where
  "img_bytes s = (width (img s) * height (img s) * pixDepth (img s)) mod 2 ^ 32"

definition memcpy_cameraBuf :: "ThorlabsUSBCam \<Rightarrow> ThorlabsUSBCam" where
  "memcpy_cameraBuf s = emit (Memcpy_cameraBuf (img_bytes s)) s"

definition SnapImage :: "env \<Rightarrow> ThorlabsUSBCam \<Rightarrow> int \<times> ThorlabsUSBCam" where
  "SnapImage e s =
     (let (ret, s1) = sdk e is_FreezeVideo s
      in if ret \<noteq> IS_SUCCESS then (ret, s1)
         else (DEVICE_OK, memcpy_cameraBuf s1))"

subsection \<open>Property handlers\<close>

definition IsStopped :: "MySequenceThread \<Rightarrow> bool" where
  "IsStopped t = stop t"

definition IsCapturing :: "ThorlabsUSBCam \<Rightarrow> bool" where
  "IsCapturing s = (\<not> IsStopped (thd s))"

text \<open>
  A handler gets the property (here its value: a \<open>long\<close> for the binning, a string for the
  pixel type) and the action, and returns the code, the property and the camera.
\<close>

definition OnBinning ::
  "env \<Rightarrow> int \<Rightarrow> ActionType \<Rightarrow> ThorlabsUSBCam \<Rightarrow> int \<times> int \<times> ThorlabsUSBCam" where
  "OnBinning e pProp eAct s =
     (if eAct = AfterSet then
        (if IsCapturing s then (DEVICE_CAMERA_BUSY_ACQUIRING, pProp, s)
         else
           let binFactor = pProp
           in if 0 < binFactor \<and> binFactor < 10 then
                (let s1 = s\<lparr> img := Resize2 (div_binSize (nMaxWidth s) binFactor)
                                            (div_binSize (nMaxHeight s) binFactor) (img s) \<rparr>;
                     s2 = s1\<lparr> binSize := binFactor \<rparr>;
                     (r, s3) = host e (OnPropertyChanged ''Binning'' (binSize s2)) s2
                 in (DEVICE_OK, pProp, s3))
              else (DEVICE_ERR, pProp, s))
      else if eAct = BeforeGet then (DEVICE_OK, binSize s, s)
      else (DEVICE_ERR, pProp, s))"

definition OnPixelType ::
  "thorcam_consts \<Rightarrow> env \<Rightarrow> string \<Rightarrow> ActionType \<Rightarrow> ThorlabsUSBCam
     \<Rightarrow> int \<times> string \<times> ThorlabsUSBCam" where
  "OnPixelType c e pProp eAct s =
     (if eAct = AfterSet then
        (if IsCapturing s then (DEVICE_CAMERA_BUSY_ACQUIRING, pProp, s)
         else
           let pixelType = pProp
           in if pixelType = g_PixelType_8bit then
                (let (nRet, s1) = sdk e (is_SetColorMode IS_CM_SENSOR_RAW8) s
                 in if nRet \<noteq> IS_SUCCESS then (nRet, pProp, s1)
                    else
                      let (r, s2) = ResizeImageBuffer e (s1\<lparr> bitDepth := 8, nComponents := 1 \<rparr>)
                      in (r, pProp, s2))
              else if pixelType = g_PixelType_16bit then
                (let (nRet, s1) = sdk e (is_SetColorMode IS_CM_SENSOR_RAW16) s
                 in if nRet \<noteq> IS_SUCCESS then (nRet, pProp, s1)
                    else
                      let (r, s2) = ResizeImageBuffer e (s1\<lparr> bitDepth := 16, nComponents := 1 \<rparr>)
                      in (r, pProp, s2))
              else
                (ERR_THORCAM_UNKNOWN_PIXEL_TYPE c, pProp, s\<lparr> nComponents := 1, bitDepth := 8 \<rparr>))
      else if eAct = BeforeGet then
        (DEVICE_OK, (if bitDepth s = 8 then g_PixelType_8bit else g_PixelType_16bit), s)
      else (DEVICE_OK, pProp, s))"

subsection \<open>Initialize\<close>

text \<open>
  \<open>host_stmt\<close> is a host call made as a statement, its code dropped (the \<open>assert\<close>s on the
  code of \<open>CreateProperty\<close> are compiled out of a release build and are not modelled).
  \<open>UpdateStatus\<close> is the host base class's call (missing); the read handlers it runs
  change no member of the camera, and the code it returns is the environment's: the model
  does not say how that code depends on the SDK calls the handlers make (\<open>OnPixelClock\<close>
  repeats the query of \<open>is_PixelClock\<close> and returns its code when it fails).  The second
  \<open>is_PixelClock\<close> call of \<open>Initialize\<close> stores its code in \<open>nRet\<close>, which the next assignment
  overwrites.
\<close>

definition host_stmt :: "env \<Rightarrow> host_call \<Rightarrow> ThorlabsUSBCam \<Rightarrow> ThorlabsUSBCam" where
  "host_stmt e call s = snd (host e call s)"

definition SetAllowedBinning :: "env \<Rightarrow> ThorlabsUSBCam \<Rightarrow> int \<times> ThorlabsUSBCam" where
  "SetAllowedBinning e s = host e (SetAllowedValues ''Binning'') s"

definition Initialize :: "env \<Rightarrow> ThorlabsUSBCam \<Rightarrow> int \<times> ThorlabsUSBCam" where
  "Initialize e s =
     (if initialized s then (DEVICE_OK, s)
      else
        let s1 = host_stmt e (CreateProperty ''CameraName'') s;
            s2 = s1\<lparr> camHandle := 0 \<rparr>;
            (nRet, s3) = sdk e is_InitCamera s2
        in if nRet \<noteq> IS_SUCCESS then (nRet, s3)
        else
        let s4 = s3\<lparr> camHandle := new_camHandle e \<rparr>;
            (nRet, s5) = sdk e is_GetCameraInfo s4
        in if nRet \<noteq> IS_SUCCESS then (nRet, s5)
        else
        let (nRet, s6) = sdk e is_GetSensorInfo s5
        in if nRet \<noteq> IS_SUCCESS then (nRet, s6)
        else
        let s7 = s6\<lparr> nMaxWidth := new_nMaxWidth e, nMaxHeight := new_nMaxHeight e \<rparr>;
            (nRet, s8) = sdk e is_SetDisplayMode s7
        in if nRet \<noteq> IS_SUCCESS then (nRet, s8)
        else
        let (nRet, s9) = sdk e (is_SetColorMode IS_CM_SENSOR_RAW8) s8
        in if nRet \<noteq> IS_SUCCESS then (nRet, s9)
        else
        let s10 = s9\<lparr> bitDepth := 8 \<rparr>;
            s11 = host_stmt e (CreateProperty ''Binning'') s10;
            (nRet, s12) = SetAllowedBinning e s11
        in if nRet \<noteq> DEVICE_OK then (nRet, s12)
        else
        let s13 = host_stmt e (CreateProperty ''PixelType'') s12;
            (nRet, s14) = host e (SetAllowedValues ''PixelType'') s13
        in if nRet \<noteq> DEVICE_OK then (nRet, s14)
        else
        let s15 = host_stmt e (CreateProperty ''Exposure'') s14;
            s16 = host_stmt e (SetPropertyLimits ''Exposure'') s15;
            s17 = host_stmt e (CreateProperty ''HardwareGain'') s16;
            s18 = host_stmt e (SetPropertyLimits ''HardwareGain'') s17;
            (nRet, s19) = sdk e (is_PixelClock IS_PIXELCLOCK_CMD_GET_RANGE) s18
        in if nRet \<noteq> IS_SUCCESS then (nRet, s19)
        else
        let (nRet, s20) = sdk e (is_PixelClock IS_PIXELCLOCK_CMD_GET) s19;
            s21 = host_stmt e (CreateProperty ''PixelClockMHz'') s20;
            s22 = host_stmt e (SetPropertyLimits ''PixelClockMHz'') s21;
            s23 = host_stmt e (CreateProperty ''FPS'') s22;
            (nRet, s24) = host e UpdateStatus s23
        in if nRet \<noteq> DEVICE_OK then (nRet, s24)
        else
        let (nRet, s25) = ResizeImageBuffer e s24
        in if nRet \<noteq> DEVICE_OK then (nRet, s25)
        else (DEVICE_OK, s25\<lparr> initialized := True \<rparr>))"

subsection \<open>Sequence acquisition\<close>

definition Stop :: "MySequenceThread \<Rightarrow> MySequenceThread" where
  "Stop t = t\<lparr> stop := True \<rparr>"

text \<open>
  \<open>MySequenceThread::Start\<close>; \<open>activate()\<close> starts the thread that runs \<open>svc\<close>, and
  \<open>camera_->GetCurrentMMTime()\<close> is the time of the call.
\<close>

definition Start :: "env \<Rightarrow> int \<Rightarrow> real \<Rightarrow> ThorlabsUSBCam \<Rightarrow> ThorlabsUSBCam" where
  "Start e n interval s =
     (let t1 = (thd s)\<lparr> numImages := n, intervalMs := interval, seq_imageCounter := 0,
                        stop := False, suspend := False \<rparr>;
          s1 = emit Thread_activate (s\<lparr> thd := t1 \<rparr>)
      in s1\<lparr> thd := (thd s1)\<lparr> actualDuration := 0, startTime := time_now e,
                              lastFrameTime := 0 \<rparr> \<rparr>)"

definition StartSequenceAcquisition ::
  "env \<Rightarrow> int \<Rightarrow> real \<Rightarrow> bool \<Rightarrow> ThorlabsUSBCam \<Rightarrow> int \<times> ThorlabsUSBCam" where
  "StartSequenceAcquisition e n interval_ms stopOnOverflow s =
     (if IsCapturing s then (DEVICE_CAMERA_BUSY_ACQUIRING, s)
      else
        let (ret, s1) = host e PrepareForAcq s
        in if ret \<noteq> DEVICE_OK then (ret, s1)
        else
        let s2 = s1\<lparr> sequenceStartTime := time_now e, imageCounter := 0 \<rparr>;
            s3 = (emit CreateEvent s2)\<lparr> hEvent := new_hEvent e \<rparr>;
            s4 = snd (sdk e is_InitEvent s3);
            s5 = snd (sdk e is_EnableEvent s4);
            (ret, s6) = sdk e is_CaptureVideo s5
        in if ret \<noteq> IS_SUCCESS then (ret, s6)
        else
        let s7 = Start e n interval_ms s6
        in (DEVICE_OK, s7\<lparr> stopOnOverFlow := stopOnOverflow \<rparr>))"

text \<open>
  \<open>InsertImage\<close>.  The metadata handed to the host (label, start and elapsed time, ROI
  origin) is built from members the call does not change and is left out of the event,
  which keeps the dimensions and the last argument of the host's \<open>InsertImage\<close> (absent,
  so \<open>true\<close> by default, in the first call and \<open>false\<close> in the second).  The guard \<open>g\<close> is
  released when the function returns.
\<close>

definition InsertImage :: "env \<Rightarrow> ThorlabsUSBCam \<Rightarrow> int \<times> ThorlabsUSBCam" where
  "InsertImage e s =
     (let s1 = s\<lparr> imageCounter := imageCounter s + 1 \<rparr>;
          s2 = emit Lock_imgPixelsLock s1;
          (pI, s3) = GetImageBuffer s2;
          w = GetImageWidth s3;
          h = GetImageHeight s3;
          b = GetImageBytesPerPixel s3;
          (ret, s4) = host e (Core_InsertImage w h b True) s3
      in if \<not> stopOnOverFlow s4 \<and> ret = DEVICE_BUFFER_OVERFLOW then
           (let s5 = host_stmt e ClearImageBuffer s4;
                (ret2, s6) = host e (Core_InsertImage w h b False) s5
            in (ret2, emit Unlock_imgPixelsLock s6))
         else (ret, emit Unlock_imgPixelsLock s4))"

text \<open>
  \<open>os << dwRet\<close> writes the status, a \<open>DWORD\<close>, in decimal.  \<open>WAIT_other n\<close> is the status
  with the value \<open>n\<close>, and the message is written for such a status only; the two named
  ones have the values of the system's header, 0 and 258.
\<close>

function decimal :: "nat \<Rightarrow> string" where
  "decimal n =
     (if n < 10 then [''0123456789'' ! n]
      else decimal (n div 10) @ [''0123456789'' ! (n mod 10)])"
  by pat_completeness auto
termination
  by (relation "measure id") auto

declare decimal.simps [simp del]

fun status_value :: "wait_status \<Rightarrow> nat" where
  "status_value WAIT_OBJECT_0 = 0"
| "status_value WAIT_TIMEOUT = 258"
| "status_value (WAIT_other n) = n"

definition unknown_event_message :: "wait_status \<Rightarrow> string" where
  "unknown_event_message dwRet = ''Unknown event status '' @ decimal (status_value dwRet)"

definition ThreadRun :: "thorcam_consts \<Rightarrow> env \<Rightarrow> ThorlabsUSBCam \<Rightarrow> int \<times> ThorlabsUSBCam" where
  "ThreadRun c e s =
     (let s1 = emit (WaitForSingleObject (hEvent s) 2000) s;
          dwRet = wait_result e
      in if dwRet = WAIT_TIMEOUT then (ERR_THORCAM_LIVE_TIMEOUT c, s1)
         else if dwRet = WAIT_OBJECT_0 then InsertImage e (memcpy_cameraBuf s1)
         else (ERR_THORCAM_LIVE_UNKNOWN_EVENT c,
               host_stmt e (LogMessage (unknown_event_message dwRet)) s1))"

definition OnThreadExiting :: "env \<Rightarrow> ThorlabsUSBCam \<Rightarrow> ThorlabsUSBCam" where
  "OnThreadExiting e s =
     (let s1 = snd (sdk e is_DisableEvent s);
          s2 = snd (sdk e is_ExitEvent s1);
          s3 = (emit (CloseHandle (hEvent s2)) s2)\<lparr> hEvent := 0 \<rparr>;
          s4 = host_stmt e (LogMessage ''Sequence acquisition thread exiting'') s3
      in host_stmt e AcqFinished s4)"

text \<open>
  One pass through the body of the \<open>do ... while\<close> loop of \<open>svc\<close>.  The host thread may
  call \<open>Stop\<close> at any moment; \<open>Stop_requested\<close> says that it does so during this pass,
  after the pass has begun and before \<open>ThreadRun\<close>'s wait returns.
\<close>

definition svc_pass :: "thorcam_consts \<Rightarrow> env \<Rightarrow> ThorlabsUSBCam \<Rightarrow> int \<times> ThorlabsUSBCam" where
  "svc_pass c e s =
     (let startTime = time_now e;
          s0 = (if Stop_requested e then s\<lparr> thd := Stop (thd s) \<rparr> else s);
          (ret, s1) = ThreadRun c e s0;
          frameTime = time_after e - startTime;
          secInterval = (real_of_int frameTime / 1000) / 1000
      in (ret, s1\<lparr> fps := (if secInterval > 0 then 1 / secInterval else 0) \<rparr>))"

text \<open>
  \<open>numImages_\<close> and the thread's \<open>imageCounter_\<close> are \<open>long\<close>.  \<open>numImages_-1\<close> and
  \<open>imageCounter_++\<close> are computed in that type: a result outside it wraps around, as the
  machine's two's-complement arithmetic does (the language itself leaves a signed
  overflow undefined).  So \<open>numImages_-1\<close> is \<open>LONG_MAX\<close> when \<open>numImages_\<close> is \<open>LONG_MIN\<close>.
\<close>

definition LONG_MIN :: "thorcam_consts \<Rightarrow> int" where
  "LONG_MIN c = - int (LONG_MAX c) - 1"

definition long_wrap :: "thorcam_consts \<Rightarrow> int \<Rightarrow> int" where
  "long_wrap c x = (x - LONG_MIN c) mod (2 * (int (LONG_MAX c) + 1)) + LONG_MIN c"

text \<open>
  The loop of \<open>svc\<close>:
  \<open>do { ret = camera_->ThreadRun(); ... } while (DEVICE_OK == ret && !IsStopped() &&
  imageCounter_++ < numImages_-1)\<close>.
  The condition is evaluated left to right and stops at the first false conjunct, so the
  counter is incremented only when the first two hold.  \<open>envs k\<close> is what the environment
  does during pass \<open>k\<close> (counted from 0).  The loop ends: the counter grows with
  every further pass, and no other statement changes it or \<open>numImages_\<close>.
\<close>

function svc_loop ::
  "thorcam_consts \<Rightarrow> (nat \<Rightarrow> env) \<Rightarrow> nat \<Rightarrow> ThorlabsUSBCam \<Rightarrow> int \<times> ThorlabsUSBCam" where
  "svc_loop c envs k s =
     (let ret = fst (svc_pass c (envs k) s);
          s1 = snd (svc_pass c (envs k) s)
      in if DEVICE_OK = ret \<and> \<not> IsStopped (thd s1) then
           (let s2 = s1\<lparr> thd := (thd s1)\<lparr> seq_imageCounter :=
                                            long_wrap c (seq_imageCounter (thd s1) + 1) \<rparr> \<rparr>
            in if seq_imageCounter (thd s1) < long_wrap c (numImages (thd s1) - 1)
               then svc_loop c envs (Suc k) s2
               else (ret, s2))
         else (ret, s1))"
  by pat_completeness auto
termination
proof (relation "measure (\<lambda>(c, envs, k, s).
                    nat (long_wrap c (numImages (thd s) - 1) - seq_imageCounter (thd s)))",
    goal_cases)
  case 1
  show ?case by simp
next
  case (2 c envs k s ret s1 s2)
  have "thd (snd (svc_pass c (envs k) s)) = (if Stop_requested (envs k) then Stop (thd s) else thd s)"
    by (simp add: svc_pass_def ThreadRun_def InsertImage_def GetImageBuffer_def
        memcpy_cameraBuf_def host_def host_stmt_def emit_def Let_def split: prod.splits)
  then have same: "numImages (thd s1) = numImages (thd s)"
    "seq_imageCounter (thd s1) = seq_imageCounter (thd s)"
    unfolding 2(2) by (simp_all add: Stop_def)
  define i where "i = seq_imageCounter (thd s)"
  define b where "b = long_wrap c (numImages (thd s) - 1)"
  define m where "m = 2 * (int (LONG_MAX c) + 1)"
  have m: "0 < m" by (simp add: m_def)
  have less: "i < b"
    using 2(5) unfolding same i_def b_def .
  have "b < m + LONG_MIN c"
    unfolding b_def long_wrap_def m_def [symmetric]
    using pos_mod_bound [OF m, of "numImages (thd s) - 1 - LONG_MIN c"] by simp
  with less have up: "i + 1 - LONG_MIN c < m" by simp
  have grows: "i < long_wrap c (i + 1)"
  proof (cases "LONG_MIN c \<le> i")
    case True
    with up have "(i + 1 - LONG_MIN c) mod m = i + 1 - LONG_MIN c"
      by (intro mod_pos_pos_trivial) simp_all
    then show ?thesis by (simp add: long_wrap_def m_def)
  next
    case False
    have "LONG_MIN c \<le> long_wrap c (i + 1)"
      unfolding long_wrap_def m_def [symmetric]
      using pos_mod_sign [OF m, of "i + 1 - LONG_MIN c"] by simp
    with False show ?thesis by simp
  qed
  have "numImages (thd s2) = numImages (thd s)" "seq_imageCounter (thd s2) = long_wrap c (i + 1)"
    unfolding 2(4) i_def using same by simp_all
  then have "nat (long_wrap c (numImages (thd s2) - 1) - seq_imageCounter (thd s2))
      < nat (long_wrap c (numImages (thd s) - 1) - seq_imageCounter (thd s))"
    using less grows unfolding b_def i_def by simp
  then show ?case by simp
qed

declare svc_loop.simps [simp del]

text \<open>
  \<open>svc\<close>, in two parts: \<open>svc_to_stop\<close> is the function from its start to the statement
  \<open>stop_=true\<close>, and \<open>svc_from_stop\<close> the rest, to the \<open>return\<close>.  \<open>e_exit\<close> is the
  environment after the loop.  (The \<open>catch (...)\<close> around the loop is not modelled:
  nothing in the model throws.)
\<close>

definition svc_to_stop ::
  "thorcam_consts \<Rightarrow> (nat \<Rightarrow> env) \<Rightarrow> env \<Rightarrow> ThorlabsUSBCam \<Rightarrow> int \<times> ThorlabsUSBCam" where
  "svc_to_stop c envs e_exit s =
     (let (ret, s1) = svc_loop c envs 0 s;
          s2 = (if IsStopped (thd s1)
                then host_stmt e_exit
                       (LogMessage (''SeqAcquisition interrupted by the user'' @ [CHR 0x0A])) s1
                else s1)
      in (ret, s2\<lparr> thd := (thd s2)\<lparr> stop := True \<rparr> \<rparr>))"

definition svc_from_stop :: "env \<Rightarrow> ThorlabsUSBCam \<Rightarrow> ThorlabsUSBCam" where
  "svc_from_stop e_exit s3 =
     (let s4 = s3\<lparr> thd := (thd s3)\<lparr> actualDuration := time_now e_exit - startTime (thd s3) \<rparr> \<rparr>
      in OnThreadExiting e_exit s4)"


text \<open>
  Threads.  Every \<open>activate()\<close> starts a thread that runs \<open>svc\<close> on the one thread object
  the camera owns, and the thread is gone when \<open>svc\<close> returns.  The host's calls and the
  threads run side by side.  The model lets them take turns, each turn running without
  interruption: a call of \<open>StartSequenceAcquisition\<close> by the host, a thread running from
  the start of \<open>svc\<close> to \<open>stop_=true\<close>, or a thread running from there to the \<open>return\<close>.
  These are some of the schedules of the program, not all of them.  \<open>looping\<close> and \<open>exiting\<close>
  count the threads that are before and after their \<open>stop_=true\<close>.
\<close>

record threads =
  camera :: ThorlabsUSBCam
  looping :: nat
  exiting :: nat

datatype turn =
    Host_StartSequenceAcquisition int real bool
  | Thread_to_stop
  | Thread_to_return

definition active_threads :: "threads \<Rightarrow> nat" where
  "active_threads a = looping a + exiting a"

definition take_turn :: "thorcam_consts \<Rightarrow> env \<Rightarrow> threads \<Rightarrow> turn \<Rightarrow> threads" where
  \<comment> \<open>Modelled from the spec: \<open>activate()\<close> belongs to the thread base class (missing); it
      starts the "dedicated acquisition thread", one for each call.\<close>
  "take_turn c e a t =
     (case t of
        Host_StartSequenceAcquisition n interval_ms stopOnOverflow \<Rightarrow>
          (let s' = snd (StartSequenceAcquisition e n interval_ms stopOnOverflow (camera a))
           in a\<lparr> camera := s',
                looping := looping a
                  + length (filter (\<lambda>ev. ev = Thread_activate) (new_events (camera a) s')) \<rparr>)
      | Thread_to_stop \<Rightarrow>
          (if 0 < looping a
           then a\<lparr> camera := snd (svc_to_stop c (\<lambda>k. e) e (camera a)),
                  looping := looping a - 1, exiting := exiting a + 1 \<rparr>
           else a)
      | Thread_to_return \<Rightarrow>
          (if 0 < exiting a
           then a\<lparr> camera := svc_from_stop e (camera a),
                  exiting := exiting a - 1 \<rparr>
           else a))"

definition take_turns :: "thorcam_consts \<Rightarrow> env \<Rightarrow> turn list \<Rightarrow> threads \<Rightarrow> threads" where
  "take_turns c e ts a = foldl (take_turn c e) a ts"

subsection \<open>Notions used to state the properties\<close>

text \<open>The buffer has the size of the full frame for the current binning and pixel depth.\<close>

definition buffer_matches_settings :: "ThorlabsUSBCam \<Rightarrow> bool" where
  "buffer_matches_settings s =
     (width (img s) = div_binSize (nMaxWidth s) (binSize s)
      \<and> height (img s) = div_binSize (nMaxHeight s) (binSize s)
      \<and> pixDepth (img s) = (if bitDepth s = 8 then 1 else 2))"

text \<open>
  Every copy of the frame buffer in a list of events happens while the pixel lock is held;
  \<open>d\<close> is how many times the running thread holds the (recursive) lock at the start.
\<close>

fun copies_locked :: "nat \<Rightarrow> event list \<Rightarrow> bool" where
  "copies_locked d [] = True"
| "copies_locked d (Lock_imgPixelsLock # es) = copies_locked (Suc d) es"
| "copies_locked d (Unlock_imgPixelsLock # es) = copies_locked (d - 1) es"
| "copies_locked d (Memcpy_cameraBuf n # es) = (0 < d \<and> copies_locked d es)"
| "copies_locked d (ev # es) = copies_locked d es"

text \<open>The SDK calls of \<open>Initialize\<close> whose code is tested right after the call.\<close>

definition checked_in_Initialize :: "sdk_call set" where
  "checked_in_Initialize =
     {is_InitCamera, is_GetCameraInfo, is_GetSensorInfo, is_SetDisplayMode,
      is_SetColorMode IS_CM_SENSOR_RAW8, is_PixelClock IS_PIXELCLOCK_CMD_GET_RANGE}"

text \<open>
  For the loop of \<open>svc\<close> started in state \<open>s\<close>: the state in which pass \<open>k\<close> begins if the
  loop gets that far, the code \<open>ThreadRun\<close> returns in pass \<open>k\<close>, whether \<open>Stop\<close> has been
  called by the end of pass \<open>k\<close>, and the number of passes a run has made (each pass waits
  for the frame event once).
\<close>

primrec before_pass :: "thorcam_consts \<Rightarrow> (nat \<Rightarrow> env) \<Rightarrow> ThorlabsUSBCam \<Rightarrow> nat \<Rightarrow> ThorlabsUSBCam" where
  "before_pass c envs s 0 = s"
| "before_pass c envs s (Suc k) =
     (let s1 = snd (svc_pass c (envs k) (before_pass c envs s k))
      in s1\<lparr> thd := (thd s1)\<lparr> seq_imageCounter := long_wrap c (seq_imageCounter (thd s1) + 1) \<rparr> \<rparr>)"






subsection \<open>Example values\<close>

text \<open>
  An environment in which every call succeeds and a frame arrives, for a sensor of
  1280 by 1024 pixels.  Three cameras: one straight from its constructor (the
  uninitialised members are zero); \<open>cam_ready\<close>, the state a successful \<open>Initialize\<close>
  leaves; and \<open>cam_running\<close>, the state after a sequence acquisition of three images was
  started.  The last two are written out with an empty trace (the trace only records
  calls, and no function reads it).
\<close>

definition thorcam_example_consts :: thorcam_consts where
  "thorcam_example_consts =
     \<lparr> ERR_THORCAM_LIVE_TIMEOUT = 11001, ERR_THORCAM_LIVE_UNKNOWN_EVENT = 11002,
       ERR_THORCAM_UNKNOWN_PIXEL_TYPE = 11003, default_numImages = 1, default_intervalMS = 100,
       LONG_MAX = 2147483647 \<rparr>"

definition env_ok :: env where
  "env_ok =
     \<lparr> sdk_rc = (\<lambda>call. IS_SUCCESS), host_rc = (\<lambda>call. DEVICE_OK),
       new_camHandle = 1, new_nMaxWidth = 1280, new_nMaxHeight = 1024,
       new_cameraBuf = 4096, new_cameraBufId = 1, new_hEvent = 7,
       wait_result = WAIT_OBJECT_0, time_now = 0, time_after = 50000,
       Stop_requested = False \<rparr>"

definition mem_zero :: ThorlabsUSBCam where
  "mem_zero =
     \<lparr> initialized = False, bitDepth = 0, roiX = 0, roiY = 0, sequenceStartTime = 0,
       readoutStartTime = 0, binSize = 0, nComponents = 0, cameraBuf = 0, cameraBufId = 0,
       hEvent = 0, fps = 0, camHandle = 0, nMaxWidth = 0, nMaxHeight = 0,
       img = ImgBuffer_new, imageCounter = 0, stopOnOverFlow = False,
       thd = MySequenceThread_new thorcam_example_consts, trace = [] \<rparr>"

definition cam_new :: ThorlabsUSBCam where
  "cam_new = ThorlabsUSBCam_new thorcam_example_consts 0 mem_zero"

definition cam_ready :: ThorlabsUSBCam where
  "cam_ready =
     \<lparr> initialized = True, bitDepth = 8, roiX = 0, roiY = 0, sequenceStartTime = 0,
       readoutStartTime = 0, binSize = 1, nComponents = 1, cameraBuf = 4096, cameraBufId = 1,
       hEvent = 0, fps = 0, camHandle = 1, nMaxWidth = 1280, nMaxHeight = 1024,
       img = \<lparr> width = 1280, height = 1024, pixDepth = 1 \<rparr>,
       imageCounter = 0, stopOnOverFlow = False,
       thd = \<lparr> intervalMs = 100, numImages = 1, seq_imageCounter = 0, stop = True,
               suspend = False, startTime = 0, actualDuration = 0, lastFrameTime = 0 \<rparr>,
       trace = [] \<rparr>"

definition cam_running :: ThorlabsUSBCam where
  "cam_running =
     \<lparr> initialized = True, bitDepth = 8, roiX = 0, roiY = 0, sequenceStartTime = 0,
       readoutStartTime = 0, binSize = 1, nComponents = 1, cameraBuf = 4096, cameraBufId = 1,
       hEvent = 7, fps = 0, camHandle = 1, nMaxWidth = 1280, nMaxHeight = 1024,
       img = \<lparr> width = 1280, height = 1024, pixDepth = 1 \<rparr>,
       imageCounter = 0, stopOnOverFlow = False,
       thd = \<lparr> intervalMs = 0, numImages = 3, seq_imageCounter = 0, stop = False,
               suspend = False, startTime = 0, actualDuration = 0, lastFrameTime = 0 \<rparr>,
       trace = [] \<rparr>"

text \<open>
  Environments in which one call fails: the host's first \<open>InsertImage\<close> reports an overflow;
  \<open>is_FreeImageMem\<close>, \<open>is_InitCamera\<close>, the range query of \<open>is_PixelClock\<close> return the SDK's
  general failure code.  \<open>cam_roi\<close> is \<open>cam_ready\<close> after a region of interest of 10 by 20
  pixels was set, \<open>cam_wide\<close> after one of 65536 by 65536 pixels, and \<open>envs_stop_second\<close> is
  a run of the acquisition loop in which \<open>Stop\<close> is called during the second pass.
\<close>

definition env_overflow :: env where
  "env_overflow = env_ok\<lparr> host_rc := (\<lambda>call. if call = Core_InsertImage 1280 1024 1 True
                                            then DEVICE_BUFFER_OVERFLOW else DEVICE_OK) \<rparr>"

definition env_free_fails :: env where
  "env_free_fails =
     env_ok\<lparr> sdk_rc := (\<lambda>call. case call of is_FreeImageMem p i \<Rightarrow> IS_NO_SUCCESS | _ \<Rightarrow> IS_SUCCESS) \<rparr>"

definition env_init_fails :: env where
  "env_init_fails =
     env_ok\<lparr> sdk_rc := (\<lambda>call. if call = is_InitCamera then IS_NO_SUCCESS else IS_SUCCESS) \<rparr>"

definition env_clock_range_fails :: env where
  "env_clock_range_fails =
     env_ok\<lparr> sdk_rc := (\<lambda>call. if call = is_PixelClock IS_PIXELCLOCK_CMD_GET_RANGE
                                then IS_NO_SUCCESS else IS_SUCCESS) \<rparr>"

definition cam_roi :: ThorlabsUSBCam where
  "cam_roi = snd (SetROI env_ok 5 6 10 20 cam_ready)"

definition cam_wide :: ThorlabsUSBCam where
  "cam_wide = snd (SetROI env_ok 0 0 65536 65536 cam_ready)"



text \<open>
  A schedule: the host starts an acquisition of one image on \<open>cam_ready\<close>; the thread makes
  its pass and gets as far as \<open>stop_=true\<close>; the host, which now sees \<open>IsCapturing()\<close> false,
  starts the next acquisition.
\<close>

definition threads_ready :: threads where
  "threads_ready = \<lparr> camera = cam_ready, looping = 0, exiting = 0 \<rparr>"

definition turns_restart :: "turn list" where
  "turns_restart =
     [Host_StartSequenceAcquisition 1 0 False, Thread_to_stop,
      Host_StartSequenceAcquisition 1 0 False]"

section \<open>Properties of the laser-engine adapter\<close>

text \<open>
  C7.  \<open>CreateDevice\<close> returns a device exactly when its argument is one of the names
  \<open>InitializeModuleData\<close> registers, and null for a null argument.  When the three names
  are distinct, the single name gives the single-ILE object, the dual name the dual-ILE
  object and the dual-700 name the dual-ILE-700 object.  (That the object is newly
  allocated is not part of the model: the result is the object's class and constructor
  argument.)
\<close>

theorem CreateDevice_registered_names:
  assumes "distinct [g_DeviceName c, g_DualDeviceName c, g_Dual700DeviceName c]"
  shows "CreateDevice c None = None
       \<and> (\<forall>name. (CreateDevice c (Some name) \<noteq> None) = (name \<in> registered_names c))
       \<and> CreateDevice c (Some (g_DeviceName c)) = Some CSingleILE
       \<and> CreateDevice c (Some (g_DualDeviceName c)) = Some (CDualILE False)
       \<and> CreateDevice c (Some (g_Dual700DeviceName c)) = Some (CDualILE True)"
  using assms
  by (auto simp: CreateDevice_def registered_names_def InitializeModuleData_def)

theorem CreateDevice_registered_names_witness:
  "distinct [g_DeviceName ile_example_consts, g_DualDeviceName ile_example_consts,
             g_Dual700DeviceName ile_example_consts]
   \<and> CreateDevice ile_example_consts (Some ''Dual ILE'') = Some (CDualILE False)
   \<and> CreateDevice ile_example_consts (Some ''Dual ILE 700'') = Some (CDualILE True)
   \<and> ''Camera'' \<notin> registered_names ile_example_consts
   \<and> CreateDevice ile_example_consts (Some ''Camera'') = None"
proof -
  have d: "distinct [g_DeviceName ile_example_consts, g_DualDeviceName ile_example_consts,
                     g_Dual700DeviceName ile_example_consts]"
    by (simp add: ile_example_consts_def)
  have out: "''Camera'' \<notin> registered_names ile_example_consts"
    by (simp add: registered_names_def InitializeModuleData_def ile_example_consts_def)
  note th = CreateDevice_registered_names [OF d]
  have n2: "g_DualDeviceName ile_example_consts = ''Dual ILE''"
    and n3: "g_Dual700DeviceName ile_example_consts = ''Dual ILE 700''"
    by (simp_all add: ile_example_consts_def)
  from th have "CreateDevice ile_example_consts (Some ''Dual ILE'') = Some (CDualILE False)"
    unfolding n2 by blast
  moreover from th have "CreateDevice ile_example_consts (Some ''Dual ILE 700'') = Some (CDualILE True)"
    unfolding n3 by blast
  moreover from th out have "CreateDevice ile_example_consts (Some ''Camera'') = None"
    by blast
  ultimately show ?thesis
    using d out by blast
qed

text \<open>
  C8.  A call of \<open>OnDeviceChange\<close> whose index is at least the number of device-name slots
  (the index being a \<open>long\<close>, below \<open>2 ^ 63\<close>) returns \<open>ERR_DEVICE_INDEXINVALID\<close> and leaves
  the property and the device names as they were.  No call, whatever the index and the
  action, reads or writes outside the array: the result is never the out-of-bounds one,
  and a negative index is rejected like a large one.
\<close>

theorem OnDeviceChange_index_guard:
  "(int (length (DevicesNames s)) \<le> DeviceIndex \<and> DeviceIndex < 2 ^ 63
      \<longrightarrow> OnDeviceChange c Prop Act DeviceIndex s = Some (ERR_DEVICE_INDEXINVALID c, Prop, s))
   \<and> (DeviceIndex < 0 \<and> - (2 ^ 63) \<le> DeviceIndex \<and> length (DevicesNames s) \<le> 2 ^ 63
      \<longrightarrow> OnDeviceChange c Prop Act DeviceIndex s = Some (ERR_DEVICE_INDEXINVALID c, Prop, s))
   \<and> OnDeviceChange c Prop Act DeviceIndex s \<noteq> None"
proof (intro conjI impI)
  assume h: "int (length (DevicesNames s)) \<le> DeviceIndex \<and> DeviceIndex < 2 ^ 63"
  then have "0 \<le> DeviceIndex" and "DeviceIndex < 2 ^ 64" by auto
  then have "DeviceIndex mod 2 ^ 64 = DeviceIndex" by simp
  with h have "length (DevicesNames s) \<le> size_t_of_long DeviceIndex"
    unfolding size_t_of_long_def by arith
  then show "OnDeviceChange c Prop Act DeviceIndex s = Some (ERR_DEVICE_INDEXINVALID c, Prop, s)"
    by (simp add: OnDeviceChange_def)
next
  assume h: "DeviceIndex < 0 \<and> - (2 ^ 63) \<le> DeviceIndex \<and> length (DevicesNames s) \<le> 2 ^ 63"
  have m: "DeviceIndex mod 2 ^ 64 = DeviceIndex + 2 ^ 64"
    using h by (intro mod_pos_pos_trivial [THEN trans [OF mod_add_self2 [symmetric]]]) auto
  from h have "int (length (DevicesNames s)) \<le> 2 ^ 63"
    by (metis of_nat_le_iff of_nat_numeral of_nat_power)
  with h have "int (length (DevicesNames s)) \<le> DeviceIndex + 2 ^ 64"
    by simp
  then have "length (DevicesNames s) \<le> size_t_of_long DeviceIndex"
    unfolding size_t_of_long_def m by simp
  then show "OnDeviceChange c Prop Act DeviceIndex s = Some (ERR_DEVICE_INDEXINVALID c, Prop, s)"
    by (simp add: OnDeviceChange_def)
next
  show "OnDeviceChange c Prop Act DeviceIndex s \<noteq> None"
    by (simp add: OnDeviceChange_def vector_read_def vector_write_def)
qed

theorem OnDeviceChange_index_guard_witness:
  "int (length (DevicesNames ile_no_lasers)) \<le> 2 \<and> (2::int) < 2 ^ 63
   \<and> OnDeviceChange ile_example_consts ''x'' AfterSet 2 ile_no_lasers
       = Some (10009, ''x'', ile_no_lasers)
   \<and> (- 1 :: int) < 0 \<and> - (2 ^ 63) \<le> (- 1 :: int) \<and> length (DevicesNames ile_no_lasers) \<le> 2 ^ 63
   \<and> OnDeviceChange ile_example_consts ''x'' BeforeGet (- 1) ile_no_lasers
       = Some (10009, ''x'', ile_no_lasers)"
proof -
  have a: "int (length (DevicesNames ile_no_lasers)) \<le> 2 \<and> (2::int) < 2 ^ 63"
    by (simp add: ile_no_lasers_def)
  have b: "(- 1 :: int) < 0 \<and> - (2 ^ 63) \<le> (- 1 :: int) \<and> length (DevicesNames ile_no_lasers) \<le> 2 ^ 63"
    by (simp add: ile_no_lasers_def)
  have e: "ERR_DEVICE_INDEXINVALID ile_example_consts = 10009"
    by (simp add: ile_example_consts_def)
  from a OnDeviceChange_index_guard [of ile_no_lasers 2 ile_example_consts "''x''" AfterSet]
  have "OnDeviceChange ile_example_consts ''x'' AfterSet 2 ile_no_lasers = Some (10009, ''x'', ile_no_lasers)"
    unfolding e by blast
  moreover from b OnDeviceChange_index_guard [of ile_no_lasers "- 1" ile_example_consts "''x''" BeforeGet]
  have "OnDeviceChange ile_example_consts ''x'' BeforeGet (- 1) ile_no_lasers = Some (10009, ''x'', ile_no_lasers)"
    unfolding e by blast
  ultimately show ?thesis using a b by blast
qed

text \<open>
  C10.  With no laser object (\<open>Lasers\<close> null), \<open>SetOpen\<close> returns \<open>DEVICE_OK\<close> and changes
  nothing, whatever its argument, and \<open>GetOpen\<close> returns \<open>DEVICE_OK\<close> with \<open>Open\<close> false,
  also changing nothing.
\<close>

theorem shutter_without_lasers:
  assumes "Lasers s = None"
  shows "SetOpen lasers_SetOpen Open s = (DEVICE_OK, s)
       \<and> GetOpen lasers_GetOpen s = (DEVICE_OK, False, s)"
  using assms by (simp add: SetOpen_def GetOpen_def)

theorem shutter_without_lasers_witness:
  "Lasers ile_no_lasers = None
   \<and> SetOpen (\<lambda>b l. (DEVICE_ERR, l)) True ile_no_lasers = (DEVICE_OK, ile_no_lasers)
   \<and> GetOpen (\<lambda>b l. (True, l)) ile_no_lasers = (DEVICE_OK, False, ile_no_lasers)"
proof -
  have n: "Lasers ile_no_lasers = None"
    by (simp add: ile_no_lasers_def)
  show ?thesis
    using n shutter_without_lasers [OF n, of "\<lambda>b l. (DEVICE_ERR, l)" True "\<lambda>b l. (True, l)"]
    by simp
qed

section \<open>Properties of the camera adapter\<close>

subsection \<open>Facts about the building blocks\<close>

lemmas cam_defs = sdk_def host_def host_stmt_def SetAllowedBinning_def emit_def new_events_def Let_def

lemma env_ok_rc: "sdk_rc env_ok call = IS_SUCCESS" "host_rc env_ok hcall = DEVICE_OK"
  by (simp_all add: env_ok_def)


lemma img_bytes_update [simp]:
  "img_bytes (s\<lparr> trace := tr \<rparr>) = img_bytes s"
  "img_bytes (s\<lparr> thd := th \<rparr>) = img_bytes s"
  "img_bytes (s\<lparr> imageCounter := ic \<rparr>) = img_bytes s"
  "img_bytes (s\<lparr> fps := f \<rparr>) = img_bytes s"
  by (simp_all add: img_bytes_def)

lemma cam_wide_eq:
  "cam_wide = cam_ready\<lparr> img := \<lparr> width = 65536, height = 65536, pixDepth = 1 \<rparr>,
                         roiX := 0, roiY := 0 \<rparr>"
  by (simp add: cam_wide_def SetROI_def Resize2_def cam_ready_def)

lemma cam_roi_eq:
  "cam_roi = cam_ready\<lparr> img := \<lparr> width = 10, height = 20, pixDepth = 1 \<rparr>, roiX := 5, roiY := 6 \<rparr>"
  by (simp add: cam_roi_def SetROI_def Resize2_def cam_ready_def)


text \<open>
  \<open>ResizeImageBuffer\<close>: what it appends to the trace, that a return of \<open>DEVICE_OK\<close> leaves
  the full-frame buffer, and its result when there is no buffer to free and the
  allocation succeeds.
\<close>

lemma alloc_and_resize_trace:
  assumes "alloc_and_resize e s = (r, s')"
  shows "\<exists>evs. trace s' = trace s @ evs
           \<and> (\<forall>call rc. Sdk call rc \<in> set evs \<longrightarrow> call \<notin> checked_in_Initialize)
           \<and> initialized s' = initialized s"
  using assms
  by (auto simp: alloc_and_resize_def checked_in_Initialize_def cam_defs
      split: if_splits prod.splits)

lemma ResizeImageBuffer_trace:
  assumes "ResizeImageBuffer e s = (r, s')"
  shows "\<exists>evs. trace s' = trace s @ evs
           \<and> (\<forall>call rc. Sdk call rc \<in> set evs \<longrightarrow> call \<notin> checked_in_Initialize)
           \<and> initialized s' = initialized s"
proof (cases "cameraBuf s \<noteq> 0 \<and> sdk_rc e (is_FreeImageMem (cameraBuf s) (cameraBufId s)) \<noteq> IS_SUCCESS")
  case True
  with assms show ?thesis
    by (auto simp: ResizeImageBuffer_def checked_in_Initialize_def cam_defs)
next
  case False
  show ?thesis
  proof (cases "cameraBuf s = 0")
    case True
    with assms have "alloc_and_resize e s = (r, s')"
      by (simp add: ResizeImageBuffer_def)
    then show ?thesis by (rule alloc_and_resize_trace)
  next
    case nz: False
    let ?s1 = "(emit (Sdk (is_FreeImageMem (cameraBuf s) (cameraBufId s)) IS_SUCCESS) s)\<lparr> cameraBuf := 0, cameraBufId := 0 \<rparr>"
    from nz False assms have "alloc_and_resize e ?s1 = (r, s')"
      by (simp add: ResizeImageBuffer_def sdk_def)
    from alloc_and_resize_trace [OF this] obtain evs where
      "trace s' = trace ?s1 @ evs" "\<forall>call rc. Sdk call rc \<in> set evs \<longrightarrow> call \<notin> checked_in_Initialize"
      "initialized s' = initialized ?s1" by blast
    then show ?thesis
      by (intro exI [of _ "Sdk (is_FreeImageMem (cameraBuf s) (cameraBufId s)) IS_SUCCESS # evs"])
        (simp add: emit_def checked_in_Initialize_def)
  qed
qed

lemma alloc_and_resize_ok:
  assumes "fst (alloc_and_resize e s) = DEVICE_OK"
  shows "buffer_matches_settings (snd (alloc_and_resize e s))"
  using assms
  by (simp add: alloc_and_resize_def buffer_matches_settings_def Resize3_def cam_defs
      DEVICE_OK_def IS_SUCCESS_def split: if_splits prod.splits)

lemma ResizeImageBuffer_ok:
  assumes "fst (ResizeImageBuffer e s) = DEVICE_OK"
  shows "buffer_matches_settings (snd (ResizeImageBuffer e s))"
proof (cases "cameraBuf s = 0")
  case True
  with assms show ?thesis
    by (simp add: ResizeImageBuffer_def alloc_and_resize_ok)
next
  case False
  with assms show ?thesis
    by (simp add: ResizeImageBuffer_def sdk_def alloc_and_resize_ok DEVICE_OK_def IS_SUCCESS_def
        split: if_splits)
qed

lemma ResizeImageBuffer_success:
  assumes "cameraBuf s = 0"
    and "sdk_rc e (is_AllocImageMem (div_binSize (nMaxWidth s) (binSize s))
                     (div_binSize (nMaxHeight s) (binSize s))
                     ((if bitDepth s = 8 then 1 else 2) * 8)) = IS_SUCCESS"
  shows "ResizeImageBuffer e s =
     (DEVICE_OK,
      s\<lparr> cameraBuf := new_cameraBuf e, cameraBufId := new_cameraBufId e,
         img := \<lparr> width = div_binSize (nMaxWidth s) (binSize s),
                  height = div_binSize (nMaxHeight s) (binSize s),
                  pixDepth = (if bitDepth s = 8 then 1 else 2) \<rparr>,
         trace := trace s @
           [Sdk (is_AllocImageMem (div_binSize (nMaxWidth s) (binSize s))
                     (div_binSize (nMaxHeight s) (binSize s))
                     ((if bitDepth s = 8 then 1 else 2) * 8)) IS_SUCCESS,
            Sdk (is_SetImageMem (new_cameraBuf e) (new_cameraBufId e))
                (sdk_rc e (is_SetImageMem (new_cameraBuf e) (new_cameraBufId e)))] \<rparr>)"
  using assms
  by (simp add: ResizeImageBuffer_def alloc_and_resize_def Resize3_def cam_defs)


text \<open>
  \<open>Initialize\<close> on a camera that is not initialised: when every tested call succeeds it
  reaches \<open>ResizeImageBuffer\<close>; it returns \<open>DEVICE_OK\<close> only then; and when the
  allocation succeeds too, it succeeds.
\<close>

lemma Initialize_reaches_resize:
  assumes "\<not> initialized s"
    and "sdk_rc e is_InitCamera = IS_SUCCESS"
    and "sdk_rc e is_GetCameraInfo = IS_SUCCESS"
    and "sdk_rc e is_GetSensorInfo = IS_SUCCESS"
    and "sdk_rc e is_SetDisplayMode = IS_SUCCESS"
    and "sdk_rc e (is_SetColorMode IS_CM_SENSOR_RAW8) = IS_SUCCESS"
    and "host_rc e (SetAllowedValues ''Binning'') = DEVICE_OK"
    and "host_rc e (SetAllowedValues ''PixelType'') = DEVICE_OK"
    and "sdk_rc e (is_PixelClock IS_PIXELCLOCK_CMD_GET_RANGE) = IS_SUCCESS"
    and "host_rc e UpdateStatus = DEVICE_OK"
  shows "Initialize e s =
     (let P = s\<lparr> camHandle := new_camHandle e, nMaxWidth := new_nMaxWidth e,
          nMaxHeight := new_nMaxHeight e, bitDepth := 8,
          trace := trace s @
            [Host (CreateProperty ''CameraName'') (host_rc e (CreateProperty ''CameraName'')),
             Sdk is_InitCamera IS_SUCCESS,
             Sdk is_GetCameraInfo IS_SUCCESS,
             Sdk is_GetSensorInfo IS_SUCCESS,
             Sdk is_SetDisplayMode IS_SUCCESS,
             Sdk (is_SetColorMode IS_CM_SENSOR_RAW8) IS_SUCCESS,
             Host (CreateProperty ''Binning'') (host_rc e (CreateProperty ''Binning'')),
             Host (SetAllowedValues ''Binning'') DEVICE_OK,
             Host (CreateProperty ''PixelType'') (host_rc e (CreateProperty ''PixelType'')),
             Host (SetAllowedValues ''PixelType'') DEVICE_OK,
             Host (CreateProperty ''Exposure'') (host_rc e (CreateProperty ''Exposure'')),
             Host (SetPropertyLimits ''Exposure'') (host_rc e (SetPropertyLimits ''Exposure'')),
             Host (CreateProperty ''HardwareGain'') (host_rc e (CreateProperty ''HardwareGain'')),
             Host (SetPropertyLimits ''HardwareGain'') (host_rc e (SetPropertyLimits ''HardwareGain'')),
             Sdk (is_PixelClock IS_PIXELCLOCK_CMD_GET_RANGE) IS_SUCCESS,
             Sdk (is_PixelClock IS_PIXELCLOCK_CMD_GET) (sdk_rc e (is_PixelClock IS_PIXELCLOCK_CMD_GET)),
             Host (CreateProperty ''PixelClockMHz'') (host_rc e (CreateProperty ''PixelClockMHz'')),
             Host (SetPropertyLimits ''PixelClockMHz'') (host_rc e (SetPropertyLimits ''PixelClockMHz'')),
             Host (CreateProperty ''FPS'') (host_rc e (CreateProperty ''FPS'')),
             Host UpdateStatus DEVICE_OK] \<rparr>
      in if fst (ResizeImageBuffer e P) \<noteq> DEVICE_OK then ResizeImageBuffer e P
         else (DEVICE_OK, (snd (ResizeImageBuffer e P))\<lparr> initialized := True \<rparr>))"
  using assms
  by (simp add: Initialize_def cam_defs split: prod.splits)

lemma Initialize_ok_all_pass:
  assumes ni: "\<not> initialized s" and ok: "fst (Initialize e s) = DEVICE_OK"
  shows "sdk_rc e is_InitCamera = IS_SUCCESS
       \<and> sdk_rc e is_GetCameraInfo = IS_SUCCESS
       \<and> sdk_rc e is_GetSensorInfo = IS_SUCCESS
       \<and> sdk_rc e is_SetDisplayMode = IS_SUCCESS
       \<and> sdk_rc e (is_SetColorMode IS_CM_SENSOR_RAW8) = IS_SUCCESS
       \<and> host_rc e (SetAllowedValues ''Binning'') = DEVICE_OK
       \<and> host_rc e (SetAllowedValues ''PixelType'') = DEVICE_OK
       \<and> sdk_rc e (is_PixelClock IS_PIXELCLOCK_CMD_GET_RANGE) = IS_SUCCESS
       \<and> host_rc e UpdateStatus = DEVICE_OK"
proof (rule ccontr)
  assume "\<not> ?thesis"
  then consider
    (f1)  "sdk_rc e is_InitCamera \<noteq> IS_SUCCESS"
    | (f2) "sdk_rc e is_InitCamera = IS_SUCCESS" "sdk_rc e is_GetCameraInfo \<noteq> IS_SUCCESS"
    | (f3) "sdk_rc e is_InitCamera = IS_SUCCESS" "sdk_rc e is_GetCameraInfo = IS_SUCCESS" "sdk_rc e is_GetSensorInfo \<noteq> IS_SUCCESS"
    | (f4) "sdk_rc e is_InitCamera = IS_SUCCESS" "sdk_rc e is_GetCameraInfo = IS_SUCCESS" "sdk_rc e is_GetSensorInfo = IS_SUCCESS" "sdk_rc e is_SetDisplayMode \<noteq> IS_SUCCESS"
    | (f5) "sdk_rc e is_InitCamera = IS_SUCCESS" "sdk_rc e is_GetCameraInfo = IS_SUCCESS" "sdk_rc e is_GetSensorInfo = IS_SUCCESS" "sdk_rc e is_SetDisplayMode = IS_SUCCESS" "sdk_rc e (is_SetColorMode IS_CM_SENSOR_RAW8) \<noteq> IS_SUCCESS"
    | (f6) "sdk_rc e is_InitCamera = IS_SUCCESS" "sdk_rc e is_GetCameraInfo = IS_SUCCESS" "sdk_rc e is_GetSensorInfo = IS_SUCCESS" "sdk_rc e is_SetDisplayMode = IS_SUCCESS" "sdk_rc e (is_SetColorMode IS_CM_SENSOR_RAW8) = IS_SUCCESS" "host_rc e (SetAllowedValues ''Binning'') \<noteq> DEVICE_OK"
    | (f7) "sdk_rc e is_InitCamera = IS_SUCCESS" "sdk_rc e is_GetCameraInfo = IS_SUCCESS" "sdk_rc e is_GetSensorInfo = IS_SUCCESS" "sdk_rc e is_SetDisplayMode = IS_SUCCESS" "sdk_rc e (is_SetColorMode IS_CM_SENSOR_RAW8) = IS_SUCCESS" "host_rc e (SetAllowedValues ''Binning'') = DEVICE_OK" "host_rc e (SetAllowedValues ''PixelType'') \<noteq> DEVICE_OK"
    | (f8) "sdk_rc e is_InitCamera = IS_SUCCESS" "sdk_rc e is_GetCameraInfo = IS_SUCCESS" "sdk_rc e is_GetSensorInfo = IS_SUCCESS" "sdk_rc e is_SetDisplayMode = IS_SUCCESS" "sdk_rc e (is_SetColorMode IS_CM_SENSOR_RAW8) = IS_SUCCESS" "host_rc e (SetAllowedValues ''Binning'') = DEVICE_OK" "host_rc e (SetAllowedValues ''PixelType'') = DEVICE_OK" "sdk_rc e (is_PixelClock IS_PIXELCLOCK_CMD_GET_RANGE) \<noteq> IS_SUCCESS"
    | (f9) "sdk_rc e is_InitCamera = IS_SUCCESS" "sdk_rc e is_GetCameraInfo = IS_SUCCESS" "sdk_rc e is_GetSensorInfo = IS_SUCCESS" "sdk_rc e is_SetDisplayMode = IS_SUCCESS" "sdk_rc e (is_SetColorMode IS_CM_SENSOR_RAW8) = IS_SUCCESS" "host_rc e (SetAllowedValues ''Binning'') = DEVICE_OK" "host_rc e (SetAllowedValues ''PixelType'') = DEVICE_OK" "sdk_rc e (is_PixelClock IS_PIXELCLOCK_CMD_GET_RANGE) = IS_SUCCESS" "host_rc e UpdateStatus \<noteq> DEVICE_OK"
    by blast
  then show False
  proof cases
    case f1
    with ni have "fst (Initialize e s) \<noteq> DEVICE_OK"
      by (simp add: Initialize_def cam_defs DEVICE_OK_def IS_SUCCESS_def)
    with ok show False by simp
    next
    case f2
    with ni have "fst (Initialize e s) \<noteq> DEVICE_OK"
      by (simp add: Initialize_def cam_defs DEVICE_OK_def IS_SUCCESS_def)
    with ok show False by simp
    next
    case f3
    with ni have "fst (Initialize e s) \<noteq> DEVICE_OK"
      by (simp add: Initialize_def cam_defs DEVICE_OK_def IS_SUCCESS_def)
    with ok show False by simp
    next
    case f4
    with ni have "fst (Initialize e s) \<noteq> DEVICE_OK"
      by (simp add: Initialize_def cam_defs DEVICE_OK_def IS_SUCCESS_def)
    with ok show False by simp
    next
    case f5
    with ni have "fst (Initialize e s) \<noteq> DEVICE_OK"
      by (simp add: Initialize_def cam_defs DEVICE_OK_def IS_SUCCESS_def)
    with ok show False by simp
    next
    case f6
    with ni have "fst (Initialize e s) \<noteq> DEVICE_OK"
      by (simp add: Initialize_def cam_defs DEVICE_OK_def IS_SUCCESS_def)
    with ok show False by simp
    next
    case f7
    with ni have "fst (Initialize e s) \<noteq> DEVICE_OK"
      by (simp add: Initialize_def cam_defs DEVICE_OK_def IS_SUCCESS_def)
    with ok show False by simp
    next
    case f8
    with ni have "fst (Initialize e s) \<noteq> DEVICE_OK"
      by (simp add: Initialize_def cam_defs DEVICE_OK_def IS_SUCCESS_def)
    with ok show False by simp
    next
    case f9
    with ni have "fst (Initialize e s) \<noteq> DEVICE_OK"
      by (simp add: Initialize_def cam_defs DEVICE_OK_def IS_SUCCESS_def)
    with ok show False by simp
  qed
qed

lemma Initialize_ok_matches:
  assumes ni: "\<not> initialized s" and ok: "fst (Initialize e s) = DEVICE_OK"
  shows "buffer_matches_settings (snd (Initialize e s))"
proof -
  note p = Initialize_ok_all_pass [OF ni ok]
  obtain P where eq: "Initialize e s =
      (if fst (ResizeImageBuffer e P) \<noteq> DEVICE_OK then ResizeImageBuffer e P
       else (DEVICE_OK, (snd (ResizeImageBuffer e P))\<lparr> initialized := True \<rparr>))"
    using Initialize_reaches_resize [OF ni, unfolded Let_def] p by blast
  from ok eq have "fst (ResizeImageBuffer e P) = DEVICE_OK"
    by (simp split: if_splits)
  from ResizeImageBuffer_ok [OF this] eq this show ?thesis
    by (simp add: buffer_matches_settings_def)
qed

text \<open>The example states are the ones the code reaches, up to the trace.\<close>

lemma Initialize_cam_new:
  "fst (Initialize env_ok cam_new) = DEVICE_OK
   \<and> (snd (Initialize env_ok cam_new))\<lparr> trace := [] \<rparr> = cam_ready"
proof -
  have ni: "\<not> initialized cam_new"
    by (simp add: cam_new_def ThorlabsUSBCam_new_def)
  note eq = Initialize_reaches_resize [OF ni, of env_ok, unfolded Let_def env_ok_rc, OF refl refl refl refl refl refl refl refl refl]
  show ?thesis
    unfolding eq
    apply (subst ResizeImageBuffer_success, simp add: cam_new_def ThorlabsUSBCam_new_def, simp add: env_ok_rc)+
    apply (simp add: cam_new_def ThorlabsUSBCam_new_def mem_zero_def cam_ready_def env_ok_def
        div_binSize_def MySequenceThread_new_def thorcam_example_consts_def ImgBuffer_new_def)
    done
qed

lemma StartSequenceAcquisition_cam_ready:
  "fst (StartSequenceAcquisition env_ok 3 0 False cam_ready) = DEVICE_OK
   \<and> (snd (StartSequenceAcquisition env_ok 3 0 False cam_ready))\<lparr> trace := [] \<rparr> = cam_running"
  by (simp add: StartSequenceAcquisition_def Start_def IsCapturing_def IsStopped_def cam_ready_def
      cam_running_def env_ok_def cam_defs DEVICE_OK_def IS_SUCCESS_def)


text \<open>
  One pass of the acquisition loop: the only change to the thread object is the stop flag,
  and only when \<open>Stop\<close> was called; the pass waits for the frame event exactly once, first
  of all; a \<open>Stop\<close> during the pass changes neither the code \<open>ThreadRun\<close> returns nor
  anything else the pass does.
\<close>

lemma svc_pass_thd:
  "thd (snd (svc_pass c e s)) = (if Stop_requested e then Stop (thd s) else thd s)"
  by (simp add: svc_pass_def ThreadRun_def InsertImage_def GetImageBuffer_def
      memcpy_cameraBuf_def cam_defs split: prod.splits)




lemma unknown_event_message_example:
  "unknown_event_message (WAIT_other 4294967295) = ''Unknown event status 4294967295''"
  by (simp add: unknown_event_message_def decimal.simps)




text \<open>
  Where \<open>numImages_\<close> is \<open>LONG_MIN\<close>, \<open>numImages_-1\<close> wraps to \<open>LONG_MAX\<close>: the loop then goes on
  after its first pass, whatever the number of images.
\<close>

lemma long_wrap_LONG_MIN: "long_wrap c (LONG_MIN c - 1) = int (LONG_MAX c)"
proof -
  have "(- 1) mod (2 * (int (LONG_MAX c) + 1)) = 2 * (int (LONG_MAX c) + 1) - 1"
    by (rule zmod_minus1) simp
  then show ?thesis by (simp add: long_wrap_def LONG_MIN_def)
qed

lemma svc_loop_LONG_MIN:
  assumes "numImages (thd s) = LONG_MIN c" and "seq_imageCounter (thd s) = 0"
    and "\<not> stop (thd s)" and "\<not> Stop_requested (envs 0)"
    and "fst (svc_pass c (envs 0) s) = DEVICE_OK"
    and "0 < LONG_MAX c"
  shows "svc_loop c envs 0 s = svc_loop c envs 1 (before_pass c envs s 1)"
  using assms
  by (subst svc_loop.simps)
     (simp add: Let_def svc_pass_thd IsStopped_def long_wrap_LONG_MIN)


lemma svc_to_stop_stopped: "stop (thd (snd (svc_to_stop c envs e_exit s)))"
  by (simp add: svc_to_stop_def cam_defs split: prod.splits)






subsection \<open>Frame insertion and overflow\<close>

text \<open>
  C1.  When the host's first \<open>InsertImage\<close> returns \<open>DEVICE_BUFFER_OVERFLOW\<close> and
  \<open>stopOnOverFlow_\<close> is false, the adapter's \<open>InsertImage\<close> clears the host's image buffer
  and inserts once more: its calls are exactly the first insertion, the clearing and one
  second insertion (all under the pixel lock), it returns the code of the second
  insertion, and it leaves the thread object, and so the running acquisition, as it was.
  When \<open>stopOnOverFlow_\<close> is true it returns \<open>DEVICE_BUFFER_OVERFLOW\<close> after the first
  insertion alone.  \<open>stopOnOverFlow_\<close> is the value requested in the
  \<open>StartSequenceAcquisition\<close> that succeeded.
\<close>

theorem InsertImage_overflow:
  "(host_rc e (Core_InsertImage (width (img s)) (height (img s)) (pixDepth (img s)) True)
      = DEVICE_BUFFER_OVERFLOW \<and> \<not> stopOnOverFlow s
    \<longrightarrow> fst (InsertImage e s)
          = host_rc e (Core_InsertImage (width (img s)) (height (img s)) (pixDepth (img s)) False)
      \<and> new_events s (snd (InsertImage e s))
          = [Lock_imgPixelsLock, Lock_imgPixelsLock, Unlock_imgPixelsLock,
             Host (Core_InsertImage (width (img s)) (height (img s)) (pixDepth (img s)) True)
               DEVICE_BUFFER_OVERFLOW,
             Host ClearImageBuffer (host_rc e ClearImageBuffer),
             Host (Core_InsertImage (width (img s)) (height (img s)) (pixDepth (img s)) False)
               (fst (InsertImage e s)),
             Unlock_imgPixelsLock]
      \<and> thd (snd (InsertImage e s)) = thd s)
   \<and> (host_rc e (Core_InsertImage (width (img s)) (height (img s)) (pixDepth (img s)) True)
      = DEVICE_BUFFER_OVERFLOW \<and> stopOnOverFlow s
    \<longrightarrow> fst (InsertImage e s) = DEVICE_BUFFER_OVERFLOW
      \<and> new_events s (snd (InsertImage e s))
          = [Lock_imgPixelsLock, Lock_imgPixelsLock, Unlock_imgPixelsLock,
             Host (Core_InsertImage (width (img s)) (height (img s)) (pixDepth (img s)) True)
               DEVICE_BUFFER_OVERFLOW,
             Unlock_imgPixelsLock]
      \<and> thd (snd (InsertImage e s)) = thd s)
   \<and> (fst (StartSequenceAcquisition e2 n interval_ms stopOnOverflow s2) = DEVICE_OK
    \<longrightarrow> stopOnOverFlow (snd (StartSequenceAcquisition e2 n interval_ms stopOnOverflow s2)) = stopOnOverflow)"
  by (simp add: InsertImage_def GetImageBuffer_def GetImageWidth_def GetImageHeight_def
      GetImageBytesPerPixel_def StartSequenceAcquisition_def Start_def cam_defs
      DEVICE_CAMERA_BUSY_ACQUIRING_def DEVICE_OK_def IS_SUCCESS_def split: prod.splits)

theorem InsertImage_overflow_witness:
  "(host_rc env_overflow (Core_InsertImage (width (img cam_running)) (height (img cam_running))
        (pixDepth (img cam_running)) True) = DEVICE_BUFFER_OVERFLOW
    \<and> \<not> stopOnOverFlow cam_running)
   \<and> fst (InsertImage env_overflow cam_running) = DEVICE_OK
   \<and> length (new_events cam_running (snd (InsertImage env_overflow cam_running))) = 7
   \<and> (host_rc env_overflow (Core_InsertImage (width (img (cam_running\<lparr> stopOnOverFlow := True \<rparr>)))
        (height (img (cam_running\<lparr> stopOnOverFlow := True \<rparr>)))
        (pixDepth (img (cam_running\<lparr> stopOnOverFlow := True \<rparr>))) True) = DEVICE_BUFFER_OVERFLOW
    \<and> stopOnOverFlow (cam_running\<lparr> stopOnOverFlow := True \<rparr>))
   \<and> fst (InsertImage env_overflow (cam_running\<lparr> stopOnOverFlow := True \<rparr>)) = DEVICE_BUFFER_OVERFLOW
   \<and> fst (StartSequenceAcquisition env_ok 3 0 True cam_ready) = DEVICE_OK
   \<and> stopOnOverFlow (snd (StartSequenceAcquisition env_ok 3 0 True cam_ready))"
proof -
  have h1: "host_rc env_overflow (Core_InsertImage (width (img cam_running)) (height (img cam_running))
        (pixDepth (img cam_running)) True) = DEVICE_BUFFER_OVERFLOW
    \<and> \<not> stopOnOverFlow cam_running"
    by (simp add: cam_running_def env_overflow_def env_ok_def)
  have h2: "host_rc env_overflow (Core_InsertImage (width (img (cam_running\<lparr> stopOnOverFlow := True \<rparr>)))
        (height (img (cam_running\<lparr> stopOnOverFlow := True \<rparr>)))
        (pixDepth (img (cam_running\<lparr> stopOnOverFlow := True \<rparr>))) True) = DEVICE_BUFFER_OVERFLOW
    \<and> stopOnOverFlow (cam_running\<lparr> stopOnOverFlow := True \<rparr>)"
    by (simp add: cam_running_def env_overflow_def env_ok_def)
  have h3: "fst (StartSequenceAcquisition env_ok 3 0 True cam_ready) = DEVICE_OK"
    by (simp add: StartSequenceAcquisition_def IsCapturing_def IsStopped_def cam_ready_def
        env_ok_def cam_defs DEVICE_OK_def IS_SUCCESS_def)
  have retry: "host_rc env_overflow (Core_InsertImage (width (img cam_running)) (height (img cam_running))
        (pixDepth (img cam_running)) False) = DEVICE_OK"
    by (simp add: cam_running_def env_overflow_def env_ok_def)
  note th = InsertImage_overflow [of env_overflow _ env_ok 3 0 True cam_ready]
  from th [of cam_running] h1 retry
  have a: "fst (InsertImage env_overflow cam_running) = DEVICE_OK
      \<and> length (new_events cam_running (snd (InsertImage env_overflow cam_running))) = 7"
    by simp
  from th [of "cam_running\<lparr> stopOnOverFlow := True \<rparr>"] h2
  have b: "fst (InsertImage env_overflow (cam_running\<lparr> stopOnOverFlow := True \<rparr>)) = DEVICE_BUFFER_OVERFLOW"
    by blast
  from th [of cam_running] h3
  have c: "stopOnOverFlow (snd (StartSequenceAcquisition env_ok 3 0 True cam_ready))"
    by blast
  show ?thesis
    using h1 h2 h3 a b c by blast
qed


subsection \<open>The acquisition loop\<close>





subsection \<open>One acquisition at a time\<close>

text \<open>
  While an acquisition is running (\<open>IsCapturing\<close>), \<open>StartSequenceAcquisition\<close> returns
  \<open>DEVICE_CAMERA_BUSY_ACQUIRING\<close> and leaves the whole adapter state, trace included, as it
  was.  A call made while none is running, with the host and the SDK answering with
  success, returns \<open>DEVICE_OK\<close>, activates one thread and leaves \<open>IsCapturing\<close> true.
\<close>

lemma StartSequenceAcquisition_while_capturing:
  assumes "IsCapturing s"
  shows "StartSequenceAcquisition e n interval_ms stopOnOverflow s = (DEVICE_CAMERA_BUSY_ACQUIRING, s)"
  using assms by (simp add: StartSequenceAcquisition_def)

lemma StartSequenceAcquisition_starts:
  assumes "\<not> IsCapturing s"
    and "host_rc e PrepareForAcq = DEVICE_OK"
    and "sdk_rc e is_CaptureVideo = IS_SUCCESS"
  shows "fst (StartSequenceAcquisition e n interval_ms stopOnOverflow s) = DEVICE_OK
       \<and> filter (\<lambda>ev. ev = Thread_activate)
            (new_events s (snd (StartSequenceAcquisition e n interval_ms stopOnOverflow s)))
           = [Thread_activate]
       \<and> IsCapturing (snd (StartSequenceAcquisition e n interval_ms stopOnOverflow s))
       \<and> hEvent (snd (StartSequenceAcquisition e n interval_ms stopOnOverflow s)) = new_hEvent e"
  using assms
  by (simp add: StartSequenceAcquisition_def Start_def IsCapturing_def IsStopped_def cam_defs
      split: prod.splits)

lemma svc_from_stop_hEvent: "hEvent (svc_from_stop e_exit s) = 0"
  by (simp add: svc_from_stop_def OnThreadExiting_def cam_defs)

text \<open>
  C3.  The guard of \<open>StartSequenceAcquisition\<close> does not keep the acquisition threads apart.
  \<open>IsCapturing\<close> is false from the moment \<open>svc\<close> has set \<open>stop_=true\<close>, which it does before it
  runs \<open>OnThreadExiting\<close> and returns.  In the schedule \<open>turns_restart\<close> the second call of
  \<open>StartSequenceAcquisition\<close> comes at that moment: it finds \<open>IsCapturing\<close> false, returns
  \<open>DEVICE_OK\<close> and activates a second thread while the first has not returned, so two
  acquisition threads are active, one in its loop and one on its way out.  When the first
  thread then finishes, its \<open>OnThreadExiting\<close> closes the event handle that the second
  call created and sets \<open>hEvent\<close> to 0, under the thread that is still in its loop.
\<close>

theorem two_threads_active:
  "active_threads (take_turns thorcam_example_consts env_ok turns_restart threads_ready) = 2
   \<and> looping (take_turns thorcam_example_consts env_ok turns_restart threads_ready) = 1
   \<and> exiting (take_turns thorcam_example_consts env_ok turns_restart threads_ready) = 1
   \<and> exiting (take_turns thorcam_example_consts env_ok (butlast turns_restart) threads_ready) = 1
   \<and> \<not> IsCapturing
        (camera (take_turns thorcam_example_consts env_ok (butlast turns_restart) threads_ready))
   \<and> fst (StartSequenceAcquisition env_ok 1 0 False
        (camera (take_turns thorcam_example_consts env_ok (butlast turns_restart) threads_ready)))
       = DEVICE_OK
   \<and> looping (take_turns thorcam_example_consts env_ok (turns_restart @ [Thread_to_return])
        threads_ready) = 1
   \<and> hEvent (camera (take_turns thorcam_example_consts env_ok
        (turns_restart @ [Thread_to_return]) threads_ready)) = 0"
proof -
  let ?c = thorcam_example_consts
  let ?start = "Host_StartSequenceAcquisition 1 0 False"
  define a1 where "a1 = take_turn ?c env_ok threads_ready ?start"
  define a2 where "a2 = take_turn ?c env_ok a1 Thread_to_stop"
  define a3 where "a3 = take_turn ?c env_ok a2 ?start"
  define a4 where "a4 = take_turn ?c env_ok a3 Thread_to_return"
  have rc: "host_rc env_ok PrepareForAcq = DEVICE_OK" "sdk_rc env_ok is_CaptureVideo = IS_SUCCESS"
    by (simp_all add: env_ok_def)
  have idle: "\<not> IsCapturing cam_ready"
    by (simp add: IsCapturing_def IsStopped_def cam_ready_def)
  note s1 = StartSequenceAcquisition_starts [OF idle rc, of 1 0 False]
  have a1: "looping a1 = 1" "exiting a1 = 0"
    using s1 by (simp_all add: a1_def take_turn_def threads_ready_def Let_def)
  have a2: "looping a2 = 0" "exiting a2 = 1"
    "camera a2 = snd (svc_to_stop ?c (\<lambda>k. env_ok) env_ok (camera a1))"
    using a1 by (simp_all add: a2_def take_turn_def)
  have idle2: "\<not> IsCapturing (camera a2)"
    unfolding a2(3) using svc_to_stop_stopped by (simp add: IsCapturing_def IsStopped_def)
  note s2 = StartSequenceAcquisition_starts [OF idle2 rc, of 1 0 False]
  have a3: "looping a3 = 1" "exiting a3 = 1"
    using s2 a2(1,2) by (simp_all add: a3_def take_turn_def Let_def)
  have a4: "looping a4 = 1" "hEvent (camera a4) = 0"
    using a3 by (simp_all add: a4_def take_turn_def svc_from_stop_hEvent)
  have t2: "take_turns ?c env_ok (butlast turns_restart) threads_ready = a2"
    by (simp add: take_turns_def turns_restart_def a1_def a2_def)
  have t3: "take_turns ?c env_ok turns_restart threads_ready = a3"
    by (simp add: take_turns_def turns_restart_def a1_def a2_def a3_def)
  have t4: "take_turns ?c env_ok (turns_restart @ [Thread_to_return]) threads_ready = a4"
    by (simp add: take_turns_def turns_restart_def a1_def a2_def a3_def a4_def)
  show ?thesis
    unfolding t2 t3 t4 active_threads_def using a2 a3 a4 idle2 s2 by simp
qed


subsection \<open>Buffer size and settings\<close>

text \<open>
  C4 (as amended).  After \<open>ResizeImageBuffer\<close>, \<open>Initialize\<close> (on a camera not yet
  initialised) or a pixel-type change returns \<open>DEVICE_OK\<close>, the image buffer is the sensor's
  maximum width and height divided by the binning factor, with byte depth 1 for the 8-bit
  pixel type and 2 otherwise.  After a binning change returns \<open>DEVICE_OK\<close>, width and height
  are the sensor maxima divided by the new factor, and byte depth and pixel type are
  unchanged.  \<open>SetROI\<close> with a non-zero size returns \<open>DEVICE_OK\<close> and makes the buffer
  \<open>xSize\<close> by \<open>ySize\<close>, the region and not the binned full frame, with the byte depth
  unchanged.  \<open>ClearROI\<close> and \<open>SetROI\<close> with size zero leave the full-frame buffer when
  their \<open>ResizeImageBuffer\<close> succeeds.  (A pixel type other than the two allowed ones
  returns \<open>ERR_THORCAM_UNKNOWN_PIXEL_TYPE\<close>, taken to differ from \<open>DEVICE_OK\<close>.)
\<close>

theorem buffer_size_after_ok:
  "(fst (ResizeImageBuffer e s) = DEVICE_OK
      \<longrightarrow> buffer_matches_settings (snd (ResizeImageBuffer e s)))
   \<and> (\<not> initialized s \<and> fst (Initialize e s) = DEVICE_OK
      \<longrightarrow> buffer_matches_settings (snd (Initialize e s)))
   \<and> (fst (OnPixelType c e pixelType AfterSet s) = DEVICE_OK
        \<and> ERR_THORCAM_UNKNOWN_PIXEL_TYPE c \<noteq> DEVICE_OK
      \<longrightarrow> buffer_matches_settings (snd (snd (OnPixelType c e pixelType AfterSet s))))
   \<and> (fst (OnBinning e binFactor AfterSet s) = DEVICE_OK
      \<longrightarrow> binSize (snd (snd (OnBinning e binFactor AfterSet s))) = binFactor
        \<and> width (img (snd (snd (OnBinning e binFactor AfterSet s))))
            = div_binSize (nMaxWidth s) binFactor
        \<and> height (img (snd (snd (OnBinning e binFactor AfterSet s))))
            = div_binSize (nMaxHeight s) binFactor
        \<and> pixDepth (img (snd (snd (OnBinning e binFactor AfterSet s)))) = pixDepth (img s)
        \<and> bitDepth (snd (snd (OnBinning e binFactor AfterSet s))) = bitDepth s)
   \<and> (\<not> (xSize = 0 \<and> ySize = 0)
      \<longrightarrow> fst (SetROI e x y xSize ySize s) = DEVICE_OK
        \<and> img (snd (SetROI e x y xSize ySize s))
            = \<lparr> width = xSize, height = ySize, pixDepth = pixDepth (img s) \<rparr>)
   \<and> (fst (ResizeImageBuffer e s) = DEVICE_OK
      \<longrightarrow> buffer_matches_settings (snd (ClearROI e s))
        \<and> buffer_matches_settings (snd (SetROI e x y 0 0 s)))"
proof (intro conjI impI)
  assume "fst (ResizeImageBuffer e s) = DEVICE_OK"
  then show "buffer_matches_settings (snd (ResizeImageBuffer e s))"
    by (rule ResizeImageBuffer_ok)
next
  assume "\<not> initialized s \<and> fst (Initialize e s) = DEVICE_OK"
  then show "buffer_matches_settings (snd (Initialize e s))"
    by (simp add: Initialize_ok_matches)
next
  assume a: "fst (OnPixelType c e pixelType AfterSet s) = DEVICE_OK
        \<and> ERR_THORCAM_UNKNOWN_PIXEL_TYPE c \<noteq> DEVICE_OK"
  have r: "buffer_matches_settings s2" if "ResizeImageBuffer e s1 = (0, s2)" for s1 s2
    using ResizeImageBuffer_ok [of e s1] that by (simp add: DEVICE_OK_def)
  from a show "buffer_matches_settings (snd (snd (OnPixelType c e pixelType AfterSet s)))"
    by (auto simp: OnPixelType_def sdk_def Let_def DEVICE_OK_def IS_SUCCESS_def
        DEVICE_CAMERA_BUSY_ACQUIRING_def split: if_splits prod.splits dest: r)
next
  assume a: "fst (OnBinning e binFactor AfterSet s) = DEVICE_OK"
  then have ok: "\<not> IsCapturing s \<and> 0 < binFactor \<and> binFactor < 10"
    by (auto simp: OnBinning_def Let_def DEVICE_OK_def DEVICE_ERR_def
        DEVICE_CAMERA_BUSY_ACQUIRING_def split: if_splits)
  then show "binSize (snd (snd (OnBinning e binFactor AfterSet s))) = binFactor"
    "width (img (snd (snd (OnBinning e binFactor AfterSet s)))) = div_binSize (nMaxWidth s) binFactor"
    "height (img (snd (snd (OnBinning e binFactor AfterSet s)))) = div_binSize (nMaxHeight s) binFactor"
    "pixDepth (img (snd (snd (OnBinning e binFactor AfterSet s)))) = pixDepth (img s)"
    "bitDepth (snd (snd (OnBinning e binFactor AfterSet s))) = bitDepth s"
    by (simp_all add: OnBinning_def Resize2_def cam_defs)
next
  assume a: "\<not> (xSize = 0 \<and> ySize = 0)"
  then show "fst (SetROI e x y xSize ySize s) = DEVICE_OK"
    "img (snd (SetROI e x y xSize ySize s)) = \<lparr> width = xSize, height = ySize, pixDepth = pixDepth (img s) \<rparr>"
    by (auto simp: SetROI_def Resize2_def)
next
  assume "fst (ResizeImageBuffer e s) = DEVICE_OK"
  from ResizeImageBuffer_ok [OF this]
  show "buffer_matches_settings (snd (ClearROI e s))" "buffer_matches_settings (snd (SetROI e x y 0 0 s))"
    by (simp_all add: ClearROI_def SetROI_def buffer_matches_settings_def Let_def)
qed

theorem buffer_size_after_ok_witness:
  "fst (ResizeImageBuffer env_ok cam_roi) = DEVICE_OK
   \<and> buffer_matches_settings (snd (ResizeImageBuffer env_ok cam_roi))
   \<and> (\<not> initialized cam_new \<and> fst (Initialize env_ok cam_new) = DEVICE_OK)
   \<and> buffer_matches_settings (snd (Initialize env_ok cam_new))
   \<and> (fst (OnPixelType thorcam_example_consts env_ok g_PixelType_16bit AfterSet cam_roi) = DEVICE_OK
        \<and> ERR_THORCAM_UNKNOWN_PIXEL_TYPE thorcam_example_consts \<noteq> DEVICE_OK)
   \<and> buffer_matches_settings (snd (snd (OnPixelType thorcam_example_consts env_ok g_PixelType_16bit AfterSet cam_roi)))
   \<and> fst (OnBinning env_ok 2 AfterSet cam_roi) = DEVICE_OK
   \<and> width (img (snd (snd (OnBinning env_ok 2 AfterSet cam_roi)))) = 640
   \<and> \<not> (10 = (0::nat) \<and> 20 = (0::nat))
   \<and> img (snd (SetROI env_ok 5 6 10 20 cam_roi)) = \<lparr> width = 10, height = 20, pixDepth = 1 \<rparr>
   \<and> buffer_matches_settings (snd (ClearROI env_ok cam_roi))"
proof -
  have h1: "fst (ResizeImageBuffer env_ok cam_roi) = DEVICE_OK"
    by (simp add: cam_roi_eq ResizeImageBuffer_def alloc_and_resize_def cam_ready_def env_ok_def
        cam_defs IS_SUCCESS_def DEVICE_OK_def)
  have h2: "\<not> initialized cam_new \<and> fst (Initialize env_ok cam_new) = DEVICE_OK"
    using Initialize_cam_new by (simp add: cam_new_def ThorlabsUSBCam_new_def)
  have h3: "fst (OnPixelType thorcam_example_consts env_ok g_PixelType_16bit AfterSet cam_roi) = DEVICE_OK
        \<and> ERR_THORCAM_UNKNOWN_PIXEL_TYPE thorcam_example_consts \<noteq> DEVICE_OK"
    by (simp add: OnPixelType_def IsCapturing_def IsStopped_def g_PixelType_16bit_def g_PixelType_8bit_def
        cam_roi_eq ResizeImageBuffer_def alloc_and_resize_def cam_ready_def env_ok_def
        thorcam_example_consts_def cam_defs IS_SUCCESS_def DEVICE_OK_def)
  have h4: "fst (OnBinning env_ok 2 AfterSet cam_roi) = DEVICE_OK"
    by (simp add: OnBinning_def IsCapturing_def IsStopped_def cam_roi_eq cam_ready_def cam_defs)
  have h5: "\<not> (10 = (0::nat) \<and> 20 = (0::nat))" by simp
  note th = buffer_size_after_ok [where e=env_ok and s=cam_roi and c=thorcam_example_consts
      and pixelType=g_PixelType_16bit and binFactor=2 and xSize=10 and ySize=20 and x=5 and y=6]
  note th2 = buffer_size_after_ok [where e=env_ok and s=cam_new]
  from th h1 have c1: "buffer_matches_settings (snd (ResizeImageBuffer env_ok cam_roi))
      \<and> buffer_matches_settings (snd (ClearROI env_ok cam_roi))" by blast
  from th2 h2 have c2: "buffer_matches_settings (snd (Initialize env_ok cam_new))" by blast
  from th h3 have c3: "buffer_matches_settings (snd (snd (OnPixelType thorcam_example_consts env_ok g_PixelType_16bit AfterSet cam_roi)))"
    by blast
  from th h4 have "width (img (snd (snd (OnBinning env_ok 2 AfterSet cam_roi)))) = div_binSize (nMaxWidth cam_roi) 2"
    by blast
  then have c4: "width (img (snd (snd (OnBinning env_ok 2 AfterSet cam_roi)))) = 640"
    by (simp add: cam_roi_eq cam_ready_def div_binSize_def)
  from th h5 have "img (snd (SetROI env_ok 5 6 10 20 cam_roi)) = \<lparr> width = 10, height = 20, pixDepth = pixDepth (img cam_roi) \<rparr>"
    by blast
  then have c5: "img (snd (SetROI env_ok 5 6 10 20 cam_roi)) = \<lparr> width = 10, height = 20, pixDepth = 1 \<rparr>"
    by (simp add: cam_roi_eq cam_ready_def)
  show ?thesis using h1 h2 h3 h4 h5 c1 c2 c3 c4 c5 by blast
qed


text \<open>
  The claim as stated fails: \<open>SetROI\<close> with a region of 10 by 20 pixels returns \<open>DEVICE_OK\<close>
  and leaves a buffer 10 pixels wide, where the sensor's width over the binning is 1280.
\<close>

theorem SetROI_counterexample:
  "fst (SetROI env_ok 5 6 10 20 cam_ready) = DEVICE_OK
   \<and> \<not> buffer_matches_settings (snd (SetROI env_ok 5 6 10 20 cam_ready))
   \<and> width (img (snd (SetROI env_ok 5 6 10 20 cam_ready))) = 10
   \<and> div_binSize (nMaxWidth (snd (SetROI env_ok 5 6 10 20 cam_ready)))
        (binSize (snd (SetROI env_ok 5 6 10 20 cam_ready))) = 1280"
  by (simp add: SetROI_def Resize2_def buffer_matches_settings_def div_binSize_def cam_ready_def)


subsection \<open>The pixel lock\<close>

text \<open>
  C5 (as amended).  Neither copy of the driver's frame buffer is made under the pixel
  lock.  \<open>SnapImage\<close>, when the capture succeeds, makes the SDK call and the copy and never
  takes the lock.  \<open>ThreadRun\<close>, when the frame event arrives, waits, copies, and only then
  runs \<open>InsertImage\<close>, which takes the lock first and releases it last and makes no copy
  itself.  \<open>GetImageBuffer\<close> takes and releases the same lock.  The number of bytes copied
  is the product of width, height and byte depth as 32-bit unsigned arithmetic gives it
  (none at all for a region of 65536 by 65536 pixels of one byte).
\<close>

theorem frame_copy_outside_lock:
  "(sdk_rc e is_FreezeVideo = IS_SUCCESS
      \<longrightarrow> new_events s (snd (SnapImage e s))
          = [Sdk is_FreezeVideo IS_SUCCESS,
             Memcpy_cameraBuf ((width (img s) * height (img s) * pixDepth (img s)) mod 2 ^ 32)])
   \<and> (wait_result e = WAIT_OBJECT_0
      \<longrightarrow> take 3 (new_events s (snd (ThreadRun c e s)))
          = [WaitForSingleObject (hEvent s) 2000,
             Memcpy_cameraBuf ((width (img s) * height (img s) * pixDepth (img s)) mod 2 ^ 32),
             Lock_imgPixelsLock]
        \<and> last (new_events s (snd (ThreadRun c e s))) = Unlock_imgPixelsLock
        \<and> new_events s (snd (ThreadRun c e s))
          = [WaitForSingleObject (hEvent s) 2000,
             Memcpy_cameraBuf ((width (img s) * height (img s) * pixDepth (img s)) mod 2 ^ 32)]
            @ new_events s (snd (InsertImage e s)))
   \<and> copies_locked 0 (new_events s (snd (InsertImage e s)))
   \<and> new_events s (snd (GetImageBuffer s)) = [Lock_imgPixelsLock, Unlock_imgPixelsLock]"
  unfolding img_bytes_def [symmetric]
  by (simp add: SnapImage_def ThreadRun_def InsertImage_def GetImageBuffer_def memcpy_cameraBuf_def
      GetImageWidth_def GetImageHeight_def GetImageBytesPerPixel_def cam_defs split: prod.splits)

theorem frame_copy_outside_lock_witness:
  "sdk_rc env_ok is_FreezeVideo = IS_SUCCESS
   \<and> new_events cam_ready (snd (SnapImage env_ok cam_ready))
       = [Sdk is_FreezeVideo IS_SUCCESS, Memcpy_cameraBuf 1310720]
   \<and> new_events cam_wide (snd (SnapImage env_ok cam_wide))
       = [Sdk is_FreezeVideo IS_SUCCESS, Memcpy_cameraBuf 0]
   \<and> wait_result env_ok = WAIT_OBJECT_0
   \<and> take 3 (new_events cam_running (snd (ThreadRun thorcam_example_consts env_ok cam_running)))
       = [WaitForSingleObject 7 2000, Memcpy_cameraBuf 1310720, Lock_imgPixelsLock]"
proof -
  have h1: "sdk_rc env_ok is_FreezeVideo = IS_SUCCESS" and h2: "wait_result env_ok = WAIT_OBJECT_0"
    by (simp_all add: env_ok_def)
  have sz: "(width (img cam_ready) * height (img cam_ready) * pixDepth (img cam_ready)) mod 2 ^ 32
      = 1310720"
    "(width (img cam_running) * height (img cam_running) * pixDepth (img cam_running)) mod 2 ^ 32
      = 1310720"
    "(width (img cam_wide) * height (img cam_wide) * pixDepth (img cam_wide)) mod 2 ^ 32 = 0"
    "hEvent cam_running = 7"
    by (simp_all add: cam_wide_eq cam_ready_def cam_running_def)
  from h1 frame_copy_outside_lock [of env_ok cam_ready]
  have a: "new_events cam_ready (snd (SnapImage env_ok cam_ready))
       = [Sdk is_FreezeVideo IS_SUCCESS, Memcpy_cameraBuf 1310720]"
    unfolding sz by blast
  from h1 frame_copy_outside_lock [of env_ok cam_wide]
  have w: "new_events cam_wide (snd (SnapImage env_ok cam_wide))
       = [Sdk is_FreezeVideo IS_SUCCESS, Memcpy_cameraBuf 0]"
    unfolding sz by blast
  from h2 frame_copy_outside_lock [of env_ok cam_running thorcam_example_consts]
  have b: "take 3 (new_events cam_running (snd (ThreadRun thorcam_example_consts env_ok cam_running)))
       = [WaitForSingleObject 7 2000, Memcpy_cameraBuf 1310720, Lock_imgPixelsLock]"
    unfolding sz by blast
  show ?thesis using h1 h2 a w b by blast
qed


text \<open>
  The claim as stated fails: in \<open>SnapImage\<close> and in \<open>ThreadRun\<close> the copy happens while the
  lock is not held.
\<close>

theorem frame_copy_counterexample:
  "\<not> copies_locked 0 (new_events cam_ready (snd (SnapImage env_ok cam_ready)))
   \<and> \<not> copies_locked 0 (new_events cam_running (snd (ThreadRun thorcam_example_consts env_ok cam_running)))"
  by (simp add: SnapImage_def ThreadRun_def InsertImage_def GetImageBuffer_def memcpy_cameraBuf_def
      GetImageWidth_def GetImageHeight_def GetImageBytesPerPixel_def
      img_bytes_def cam_defs cam_ready_def cam_running_def env_ok_def IS_SUCCESS_def DEVICE_OK_def
      DEVICE_BUFFER_OVERFLOW_def split: prod.splits)


subsection \<open>Failures of the SDK during Initialize\<close>

text \<open>
  C6 (as amended).  When \<open>is_InitCamera\<close>, \<open>is_GetCameraInfo\<close>, \<open>is_GetSensorInfo\<close>,
  \<open>is_SetDisplayMode\<close>, \<open>is_SetColorMode\<close> or the range query of \<open>is_PixelClock\<close> is called
  by \<open>Initialize\<close> and returns a code other than \<open>IS_SUCCESS\<close>, that call is the last thing
  \<open>Initialize\<close> does, \<open>Initialize\<close> returns the vendor's code as it is, and the camera stays
  uninitialised.
\<close>

theorem Initialize_failed_call:
  "Sdk call rc \<in> set (new_events s (snd (Initialize e s)))
     \<and> call \<in> checked_in_Initialize \<and> rc \<noteq> IS_SUCCESS
   \<longrightarrow> fst (Initialize e s) = rc
       \<and> \<not> initialized (snd (Initialize e s))
       \<and> last (trace (snd (Initialize e s))) = Sdk call rc"
proof (cases "initialized s")
  case True
  then show ?thesis by (simp add: Initialize_def new_events_def)
next
  case ni: False
  consider
    (f1)  "sdk_rc e is_InitCamera \<noteq> IS_SUCCESS"
    | (f2) "sdk_rc e is_InitCamera = IS_SUCCESS" "sdk_rc e is_GetCameraInfo \<noteq> IS_SUCCESS"
    | (f3) "sdk_rc e is_InitCamera = IS_SUCCESS" "sdk_rc e is_GetCameraInfo = IS_SUCCESS" "sdk_rc e is_GetSensorInfo \<noteq> IS_SUCCESS"
    | (f4) "sdk_rc e is_InitCamera = IS_SUCCESS" "sdk_rc e is_GetCameraInfo = IS_SUCCESS" "sdk_rc e is_GetSensorInfo = IS_SUCCESS" "sdk_rc e is_SetDisplayMode \<noteq> IS_SUCCESS"
    | (f5) "sdk_rc e is_InitCamera = IS_SUCCESS" "sdk_rc e is_GetCameraInfo = IS_SUCCESS" "sdk_rc e is_GetSensorInfo = IS_SUCCESS" "sdk_rc e is_SetDisplayMode = IS_SUCCESS" "sdk_rc e (is_SetColorMode IS_CM_SENSOR_RAW8) \<noteq> IS_SUCCESS"
    | (f6) "sdk_rc e is_InitCamera = IS_SUCCESS" "sdk_rc e is_GetCameraInfo = IS_SUCCESS" "sdk_rc e is_GetSensorInfo = IS_SUCCESS" "sdk_rc e is_SetDisplayMode = IS_SUCCESS" "sdk_rc e (is_SetColorMode IS_CM_SENSOR_RAW8) = IS_SUCCESS" "host_rc e (SetAllowedValues ''Binning'') \<noteq> DEVICE_OK"
    | (f7) "sdk_rc e is_InitCamera = IS_SUCCESS" "sdk_rc e is_GetCameraInfo = IS_SUCCESS" "sdk_rc e is_GetSensorInfo = IS_SUCCESS" "sdk_rc e is_SetDisplayMode = IS_SUCCESS" "sdk_rc e (is_SetColorMode IS_CM_SENSOR_RAW8) = IS_SUCCESS" "host_rc e (SetAllowedValues ''Binning'') = DEVICE_OK" "host_rc e (SetAllowedValues ''PixelType'') \<noteq> DEVICE_OK"
    | (f8) "sdk_rc e is_InitCamera = IS_SUCCESS" "sdk_rc e is_GetCameraInfo = IS_SUCCESS" "sdk_rc e is_GetSensorInfo = IS_SUCCESS" "sdk_rc e is_SetDisplayMode = IS_SUCCESS" "sdk_rc e (is_SetColorMode IS_CM_SENSOR_RAW8) = IS_SUCCESS" "host_rc e (SetAllowedValues ''Binning'') = DEVICE_OK" "host_rc e (SetAllowedValues ''PixelType'') = DEVICE_OK" "sdk_rc e (is_PixelClock IS_PIXELCLOCK_CMD_GET_RANGE) \<noteq> IS_SUCCESS"
    | (f9) "sdk_rc e is_InitCamera = IS_SUCCESS" "sdk_rc e is_GetCameraInfo = IS_SUCCESS" "sdk_rc e is_GetSensorInfo = IS_SUCCESS" "sdk_rc e is_SetDisplayMode = IS_SUCCESS" "sdk_rc e (is_SetColorMode IS_CM_SENSOR_RAW8) = IS_SUCCESS" "host_rc e (SetAllowedValues ''Binning'') = DEVICE_OK" "host_rc e (SetAllowedValues ''PixelType'') = DEVICE_OK" "sdk_rc e (is_PixelClock IS_PIXELCLOCK_CMD_GET_RANGE) = IS_SUCCESS" "host_rc e UpdateStatus \<noteq> DEVICE_OK"
    | (pass) "sdk_rc e is_InitCamera = IS_SUCCESS" "sdk_rc e is_GetCameraInfo = IS_SUCCESS" "sdk_rc e is_GetSensorInfo = IS_SUCCESS" "sdk_rc e is_SetDisplayMode = IS_SUCCESS" "sdk_rc e (is_SetColorMode IS_CM_SENSOR_RAW8) = IS_SUCCESS" "host_rc e (SetAllowedValues ''Binning'') = DEVICE_OK" "host_rc e (SetAllowedValues ''PixelType'') = DEVICE_OK" "sdk_rc e (is_PixelClock IS_PIXELCLOCK_CMD_GET_RANGE) = IS_SUCCESS" "host_rc e UpdateStatus = DEVICE_OK"
    by blast
  then show ?thesis
  proof cases
    case f1
    with ni show ?thesis
      by (auto simp: Initialize_def cam_defs checked_in_Initialize_def)
    next
    case f2
    with ni show ?thesis
      by (auto simp: Initialize_def cam_defs checked_in_Initialize_def)
    next
    case f3
    with ni show ?thesis
      by (auto simp: Initialize_def cam_defs checked_in_Initialize_def)
    next
    case f4
    with ni show ?thesis
      by (auto simp: Initialize_def cam_defs checked_in_Initialize_def)
    next
    case f5
    with ni show ?thesis
      by (auto simp: Initialize_def cam_defs checked_in_Initialize_def)
    next
    case f6
    with ni show ?thesis
      by (auto simp: Initialize_def cam_defs checked_in_Initialize_def)
    next
    case f7
    with ni show ?thesis
      by (auto simp: Initialize_def cam_defs checked_in_Initialize_def)
    next
    case f8
    with ni show ?thesis
      by (auto simp: Initialize_def cam_defs checked_in_Initialize_def)
    next
    case f9
    with ni show ?thesis
      by (auto simp: Initialize_def cam_defs checked_in_Initialize_def)
  next
    case pass
    define P where "P = s\<lparr> camHandle := new_camHandle e, nMaxWidth := new_nMaxWidth e,
          nMaxHeight := new_nMaxHeight e, bitDepth := 8,
          trace := trace s @
            [Host (CreateProperty ''CameraName'') (host_rc e (CreateProperty ''CameraName'')),
             Sdk is_InitCamera IS_SUCCESS,
             Sdk is_GetCameraInfo IS_SUCCESS,
             Sdk is_GetSensorInfo IS_SUCCESS,
             Sdk is_SetDisplayMode IS_SUCCESS,
             Sdk (is_SetColorMode IS_CM_SENSOR_RAW8) IS_SUCCESS,
             Host (CreateProperty ''Binning'') (host_rc e (CreateProperty ''Binning'')),
             Host (SetAllowedValues ''Binning'') DEVICE_OK,
             Host (CreateProperty ''PixelType'') (host_rc e (CreateProperty ''PixelType'')),
             Host (SetAllowedValues ''PixelType'') DEVICE_OK,
             Host (CreateProperty ''Exposure'') (host_rc e (CreateProperty ''Exposure'')),
             Host (SetPropertyLimits ''Exposure'') (host_rc e (SetPropertyLimits ''Exposure'')),
             Host (CreateProperty ''HardwareGain'') (host_rc e (CreateProperty ''HardwareGain'')),
             Host (SetPropertyLimits ''HardwareGain'') (host_rc e (SetPropertyLimits ''HardwareGain'')),
             Sdk (is_PixelClock IS_PIXELCLOCK_CMD_GET_RANGE) IS_SUCCESS,
             Sdk (is_PixelClock IS_PIXELCLOCK_CMD_GET) (sdk_rc e (is_PixelClock IS_PIXELCLOCK_CMD_GET)),
             Host (CreateProperty ''PixelClockMHz'') (host_rc e (CreateProperty ''PixelClockMHz'')),
             Host (SetPropertyLimits ''PixelClockMHz'') (host_rc e (SetPropertyLimits ''PixelClockMHz'')),
             Host (CreateProperty ''FPS'') (host_rc e (CreateProperty ''FPS'')),
             Host UpdateStatus DEVICE_OK] \<rparr>"
    obtain r s' where R: "ResizeImageBuffer e P = (r, s')"
      by (cases "ResizeImageBuffer e P")
    from ResizeImageBuffer_trace [OF R] obtain evs where
      tr: "trace s' = trace P @ evs"
      and evs: "\<forall>call rc. Sdk call rc \<in> set evs \<longrightarrow> call \<notin> checked_in_Initialize"
      by blast
    have I: "Initialize e s = (if r \<noteq> DEVICE_OK then (r, s') else (DEVICE_OK, s'\<lparr> initialized := True \<rparr>))"
      using Initialize_reaches_resize [OF ni pass] R unfolding P_def [symmetric] by (simp add: Let_def)
    have "trace (snd (Initialize e s)) = trace P @ evs"
      using I tr by simp
    then have "new_events s (snd (Initialize e s)) = drop (length (trace s)) (trace P) @ evs"
      by (simp add: new_events_def P_def)
    with evs show ?thesis
      by (auto simp: P_def checked_in_Initialize_def)
  qed
qed

theorem Initialize_failed_call_witness:
  "Sdk (is_PixelClock IS_PIXELCLOCK_CMD_GET_RANGE) IS_NO_SUCCESS
      \<in> set (new_events cam_new (snd (Initialize env_clock_range_fails cam_new)))
   \<and> is_PixelClock IS_PIXELCLOCK_CMD_GET_RANGE \<in> checked_in_Initialize
   \<and> IS_NO_SUCCESS \<noteq> IS_SUCCESS
   \<and> fst (Initialize env_clock_range_fails cam_new) = IS_NO_SUCCESS
   \<and> \<not> initialized (snd (Initialize env_clock_range_fails cam_new))"
proof -
  have h: "Sdk (is_PixelClock IS_PIXELCLOCK_CMD_GET_RANGE) IS_NO_SUCCESS
      \<in> set (new_events cam_new (snd (Initialize env_clock_range_fails cam_new)))
     \<and> is_PixelClock IS_PIXELCLOCK_CMD_GET_RANGE \<in> checked_in_Initialize
     \<and> IS_NO_SUCCESS \<noteq> IS_SUCCESS"
    by (simp add: Initialize_def cam_defs cam_new_def ThorlabsUSBCam_new_def env_clock_range_fails_def
        env_ok_def checked_in_Initialize_def IS_NO_SUCCESS_def IS_SUCCESS_def DEVICE_OK_def)
  from h Initialize_failed_call [of "is_PixelClock IS_PIXELCLOCK_CMD_GET_RANGE" IS_NO_SUCCESS
      cam_new env_clock_range_fails]
  show ?thesis by blast
qed


text \<open>
  The claim as stated fails: the code returned is the vendor's, not one of the host's.
  When \<open>is_InitCamera\<close> returns the SDK's general failure code -1, so does \<open>Initialize\<close>, and
  -1 is no code of the host's list.
\<close>

theorem Initialize_counterexample:
  "Sdk is_InitCamera IS_NO_SUCCESS \<in> set (new_events cam_new (snd (Initialize env_init_fails cam_new)))
   \<and> fst (Initialize env_init_fails cam_new) = IS_NO_SUCCESS
   \<and> IS_NO_SUCCESS \<notin> host_error_codes"
  by (simp add: Initialize_def cam_defs cam_new_def ThorlabsUSBCam_new_def env_init_fails_def env_ok_def
      IS_NO_SUCCESS_def IS_SUCCESS_def host_error_codes_def)

subsection \<open>The region of interest\<close>

text \<open>
  What holds on every path.  After \<open>SetROI(x, y, xSize, ySize)\<close> with \<open>xSize\<close> and \<open>ySize\<close> not
  both zero, \<open>GetROI\<close> returns exactly \<open>(x, y, xSize, ySize)\<close>.  \<open>SetROI\<close> with both sizes zero
  does what \<open>ClearROI\<close> does, and that resets the origin to \<open>(0, 0)\<close>.  All three operations
  return \<open>DEVICE_OK\<close>, whatever happens inside.  The buffer is back to the full frame for
  the current binning and pixel depth when the \<open>ResizeImageBuffer\<close> inside \<open>ClearROI\<close>
  succeeds.
\<close>

lemma ROI_set_get_clear:
  "(\<not> (xSize = 0 \<and> ySize = 0)
      \<longrightarrow> GetROI (snd (SetROI e x y xSize ySize s)) = (DEVICE_OK, x, y, xSize, ySize))
   \<and> SetROI e x y 0 0 s = ClearROI e s
   \<and> roiX (snd (ClearROI e s)) = 0 \<and> roiY (snd (ClearROI e s)) = 0
   \<and> fst (SetROI e x y xSize ySize s) = DEVICE_OK
   \<and> fst (ClearROI e s) = DEVICE_OK
   \<and> fst (GetROI s) = DEVICE_OK
   \<and> (fst (ResizeImageBuffer e s) = DEVICE_OK
      \<longrightarrow> buffer_matches_settings (snd (ClearROI e s)))"
proof -
  have "buffer_matches_settings ((snd (ResizeImageBuffer e s))\<lparr> roiX := 0, roiY := 0 \<rparr>)"
    if "fst (ResizeImageBuffer e s) = DEVICE_OK"
    using ResizeImageBuffer_ok [OF that] by (simp add: buffer_matches_settings_def)
  then show ?thesis
    by (simp add: SetROI_def GetROI_def ClearROI_def Resize2_def Let_def)
qed

text \<open>
  C9.  \<open>ClearROI\<close> does not always restore the full frame.  It calls \<open>ResizeImageBuffer\<close>
  and drops the code that comes back.  On \<open>cam_roi\<close>, a camera with a region of 10 by 20
  pixels, when the SDK refuses to free the frame buffer (\<open>is_FreeImageMem\<close> fails),
  \<open>ResizeImageBuffer\<close> returns early with the SDK's code and the image buffer unchanged;
  \<open>ClearROI\<close> resets the origin and returns \<open>DEVICE_OK\<close> all the same, and \<open>GetROI\<close> then
  reports a region of 10 by 20 pixels at \<open>(0, 0)\<close>, not the full frame of 1280 by 1024.
  \<open>SetROI\<close> with both sizes zero does the same.
\<close>

theorem ClearROI_keeps_region:
  "fst (ResizeImageBuffer env_free_fails cam_roi) = IS_NO_SUCCESS
   \<and> fst (ClearROI env_free_fails cam_roi) = DEVICE_OK
   \<and> \<not> buffer_matches_settings (snd (ClearROI env_free_fails cam_roi))
   \<and> GetROI (snd (ClearROI env_free_fails cam_roi)) = (DEVICE_OK, 0, 0, 10, 20)
   \<and> SetROI env_free_fails 0 0 0 0 cam_roi = ClearROI env_free_fails cam_roi
   \<and> div_binSize (nMaxWidth cam_roi) (binSize cam_roi) = 1280
   \<and> div_binSize (nMaxHeight cam_roi) (binSize cam_roi) = 1024"
  by (simp add: cam_roi_eq ClearROI_def SetROI_def GetROI_def ResizeImageBuffer_def
      buffer_matches_settings_def div_binSize_def cam_ready_def env_free_fails_def env_ok_def
      cam_defs IS_NO_SUCCESS_def IS_SUCCESS_def DEVICE_OK_def)


end
